theory Spec2Isabelle
  imports Main "HOL-Library.Word"
begin

section \<open>VibeMerge: the reaction relay of main.go\<close>

text \<open>
  The program is one Go file. It reads its configuration from the process environment,
  connects to Redis, subscribes to a channel of Slack reaction events and, for every
  reaction with the configured emoji on a message that carries pull-request metadata,
  appends a command payload to a Redis list and publishes a time-to-live message.

  Go's \<open>int\<close> is the 64-bit signed integer of the target the Dockerfile builds for; it is
  a \<open>64 word\<close>, read with \<open>sint\<close>. Go strings are byte strings: \<open>string\<close>.
\<close>

type_synonym go_int = "64 word"

subsection \<open>Errors\<close>

text \<open>
  An \<open>error\<close> is either created with a message or wraps another error behind a prefix, as
  \<open>fmt.Errorf("prefix: %w", err)\<close> does. \<open>errorString\<close> is its \<open>Error()\<close> text.
\<close>

datatype error = Error string | Wrap string error

fun errorString :: "error \<Rightarrow> string" where
  "errorString (Error m) = m"
| "errorString (Wrap p e) = p @ '': '' @ errorString e"

subsection \<open>JSON documents\<close>

text \<open>
  The documents this program writes are kept as trees: an object is the list of its members
  in the order \<open>json.Marshal\<close> emits them, which for a struct is the order of its fields,
  each under the key of its \<open>json:"..."\<close> tag. A \<open>JStr\<close> holds the Go string handed to
  the encoder. The rendering of a tree as text (escaping, and the replacement of bytes that
  are not valid UTF-8) belongs to encoding/json.
\<close>

datatype json =
    JNull
  | JBool bool
  | JNum int
  | JStr string
  | JArr "json list"
  | JObj "(string \<times> json) list"

subsection \<open>The structs of main.go\<close>

record Config =
  SlackBotToken :: string
  RedisAddr :: string
  RedisPassword :: string
  RedisDB :: go_int
  WorkDir :: string
  TargetEmoji :: string
  TargetBranch :: string
  PoppitQueue :: string
  TimeBombChannel :: string
  TimeBombTTL :: go_int
  LogLevel :: string

text \<open>
  \<open>ReactionEvent\<close> with its two anonymous nested structs and the element struct of
  \<open>Authorizations\<close>. Fields of type \<open>interface{}\<close> hold a JSON document. Field names that
  occur in more than one struct carry the struct's name in front.
\<close>

record ReactionEvent_Item =
  Item_Type :: string
  Item_Channel :: string
  Item_Ts :: string

record ReactionEvent_Event =
  Event_Type :: string
  User :: string
  Reaction :: string
  Item :: ReactionEvent_Item
  ItemUser :: string
  EventTs :: string

record Authorization =
  Authorization_EnterpriseID :: json
  Authorization_TeamID :: string
  UserID :: string
  IsBot :: bool
  IsEnterpriseInstall :: bool

record ReactionEvent =
  Token :: string
  TeamID :: string
  ContextTeamID :: string
  ContextEnterpriseID :: json
  APIAppID :: string
  Event :: ReactionEvent_Event
  Type :: string
  EventID :: string
  EventTime :: "64 word"
  Authorizations :: "Authorization list"
  IsExtSharedChannel :: bool
  EventContext :: string

record PRMetadata =
  PRNumber :: go_int
  Repository :: string
  PRURL :: string
  Author :: string
  Branch :: string
  EventAction :: string

record PoppitPayload =
  Repo :: string
  PoppitPayload_Branch :: string
  PoppitPayload_Type :: string
  Dir :: string
  Commands :: "string list"

record TimeBombMessage =
  Channel :: string
  Ts :: string
  TTL :: go_int

subsection \<open>Log levels\<close>

datatype LogLevel = LogLevelDebug | LogLevelInfo | LogLevelWarning | LogLevelError

text \<open>The \<open>iota\<close> value of a level; the log functions compare levels by it.\<close>

fun levelValue :: "LogLevel \<Rightarrow> nat" where
  "levelValue LogLevelDebug = 0"
| "levelValue LogLevelInfo = 1"
| "levelValue LogLevelWarning = 2"
| "levelValue LogLevelError = 3"

definition parseLogLevel :: "string \<Rightarrow> LogLevel" where
  "parseLogLevel level =
     (if level = ''DEBUG'' then LogLevelDebug
      else if level = ''INFO'' then LogLevelInfo
      else if level = ''WARNING'' \<or> level = ''WARN'' then LogLevelWarning
      else if level = ''ERROR'' then LogLevelError
      else LogLevelInfo)"

text \<open>
  A log line is the format string handed to \<open>log.Printf\<close> and its arguments, each already
  rendered as \<open>%s\<close>, \<open>%d\<close> or \<open>%v\<close> renders it.
\<close>

type_synonym log_line = "string \<times> string list"

subsection \<open>Decimal numerals: \<open>%d\<close> and \<open>strconv.Atoi\<close>\<close>

definition digitChar :: "nat \<Rightarrow> char" where
  "digitChar d = ''0123456789'' ! (d mod 10)"

fun showNat :: "nat \<Rightarrow> string" where
  "showNat n = (if n < 10 then [digitChar n] else showNat (n div 10) @ [digitChar (n mod 10)])"

declare showNat.simps [simp del]

text \<open>\<open>%d\<close> of a signed integer: a minus sign in front of a negative value.\<close>

definition showInt :: "int \<Rightarrow> string" where
  "showInt i = (if i < 0 then CHR ''-'' # showNat (nat (- i)) else showNat (nat i))"

text \<open>The value of a decimal digit: the byte less \<open>'0'\<close>, when that is at most 9.\<close>

definition digitVal :: "char \<Rightarrow> nat option" where
  "digitVal c =
     (let b = (of_char c :: nat)
      in if 48 \<le> b \<and> b - 48 \<le> 9 then Some (b - 48) else None)"

fun parseDigits :: "nat \<Rightarrow> string \<Rightarrow> nat option" where
  "parseDigits n [] = Some n"
| "parseDigits n (c # cs) =
     (case digitVal c of None \<Rightarrow> None | Some d \<Rightarrow> parseDigits (n * 10 + d) cs)"

text \<open>
  \<open>strconv.Atoi\<close>: an optional sign, then at least one decimal digit and nothing else, and
  a value that fits \<open>int\<close>; anything else is an error.
\<close>

definition Atoi :: "string \<Rightarrow> error + go_int" where
  "Atoi s =
     (let neg = (s \<noteq> [] \<and> hd s = CHR ''-'');
          ds = (if s \<noteq> [] \<and> (hd s = CHR ''-'' \<or> hd s = CHR ''+'') then tl s else s)
      in if ds = [] then Inl (Error ''invalid syntax'')
         else (case parseDigits 0 ds of
                 None \<Rightarrow> Inl (Error ''invalid syntax'')
               | Some n \<Rightarrow>
                   let v = (if neg then - int n else int n)
                   in if v < - (2 ^ 63) \<or> 2 ^ 63 - 1 < v
                      then Inl (Error ''value out of range'')
                      else Inr (word_of_int v)))"

subsection \<open>Configuration\<close>

text \<open>
  The process environment is a partial map from names to values; \<open>os.Getenv\<close> answers the
  empty string for a name that is not set.
\<close>

type_synonym environ = "string \<rightharpoonup> string"

definition Getenv :: "environ \<Rightarrow> string \<Rightarrow> string" where
  "Getenv env key = (case env key of None \<Rightarrow> [] | Some v \<Rightarrow> v)"

definition getEnv :: "environ \<Rightarrow> string \<Rightarrow> string \<Rightarrow> string" where
  "getEnv env key defaultValue =
     (let v = Getenv env key in if v \<noteq> [] then v else defaultValue)"

text \<open>
  \<open>getEnvInt\<close> also returns the lines it writes with the standard logger: one warning
  when the value is set and is not an integer.
\<close>

definition getEnvInt :: "environ \<Rightarrow> string \<Rightarrow> go_int \<Rightarrow> go_int \<times> log_line list" where
  "getEnvInt env key defaultValue =
     (let v = Getenv env key
      in if v \<noteq> [] then
           (case Atoi v of
              Inr intValue \<Rightarrow> (intValue, [])
            | Inl err \<Rightarrow>
                (defaultValue,
                 [(''[WARNING] invalid integer value for %s: %s, using default: %d'',
                   [key, v, showInt (sint defaultValue)])]))
         else (defaultValue, []))"

text \<open>
  \<open>loadConfig\<close> returns the lines logged and either the message of \<open>log.Fatal\<close>, after
  which the process has exited with status 1, or the configuration.
\<close>

definition loadConfig :: "environ \<Rightarrow> log_line list \<times> (string + Config)" where
  "loadConfig env =
     (let (ttl, warnings) = getEnvInt env ''TIMEBOMB_TTL'' 86400;
          config = \<lparr>
            SlackBotToken = getEnv env ''SLACK_BOT_TOKEN'' [],
            RedisAddr = getEnv env ''REDIS_ADDR'' ''localhost:6379'',
            RedisPassword = getEnv env ''REDIS_PASSWORD'' [],
            RedisDB = 0,
            WorkDir = getEnv env ''WORK_DIR'' ''/tmp/vibemerge'',
            TargetEmoji = getEnv env ''TARGET_EMOJI'' ''heart_eyes_cat'',
            TargetBranch = getEnv env ''TARGET_BRANCH'' ''refs/heads/main'',
            PoppitQueue = getEnv env ''POPPIT_QUEUE'' ''poppit-commands'',
            TimeBombChannel = getEnv env ''TIMEBOMB_CHANNEL'' ''timebomb-messages'',
            TimeBombTTL = ttl,
            LogLevel = getEnv env ''LOG_LEVEL'' ''INFO'' \<rparr>
      in if SlackBotToken config = []
         then (warnings, Inl ''SLACK_BOT_TOKEN environment variable is required'')
         else (warnings, Inr config))"

subsection \<open>The libraries and the outside world\<close>

text \<open>
  Of \<open>slack.Message\<close> only the metadata is read: an event type and an event payload. The
  payload is a \<open>map[string]interface{}\<close> filled by the Slack client; its type is left open
  (\<open>'p\<close>), since only encoding/json looks inside it.
\<close>

record 'p SlackMetadata =
  EventType :: string
  EventPayload :: "'p"

record 'p Message =
  Metadata :: "'p SlackMetadata"

record GetConversationHistoryParameters =
  ChannelID :: string
  Latest :: string
  Limit :: go_int
  Inclusive :: bool
  IncludeAllMetadata :: bool

text \<open>
  encoding/json is not part of the program. Its three uses on input that the program does
  not control are parameters: decoding a bus message into a \<open>ReactionEvent\<close>, encoding an
  event payload, and decoding that text into a \<open>PRMetadata\<close>.
\<close>

record 'p json_lib =
  unmarshalReactionEvent :: "string \<Rightarrow> error + ReactionEvent"
  marshalEventPayload :: "'p \<Rightarrow> error + string"
  unmarshalPRMetadata :: "string \<Rightarrow> error + PRMetadata"

text \<open>
  What Slack and Redis answer while one bus message is handled: the reply to
  \<open>GetConversationHistory\<close>, and for \<open>RPUSH\<close> and \<open>PUBLISH\<close> the error, if any.
\<close>

record 'p ext =
  history_resp :: "GetConversationHistoryParameters \<Rightarrow> error + 'p Message list"
  rpush_resp :: "string \<Rightarrow> json \<Rightarrow> error option"
  publish_resp :: "string \<Rightarrow> json \<Rightarrow> error option"

text \<open>
  Every use the program makes of the Redis and Slack clients, whether it succeeds or not.
  \<open>NewClient\<close> carries the address, the password and the database index of the options.
\<close>

datatype call =
    NewClient string string go_int
  | Ping
  | Subscribe string
  | GetConversationHistory GetConversationHistoryParameters
  | RPush string json
  | Publish string json

text \<open>
  The world the program acts on: the Redis lists, the messages delivered on Redis channels,
  the requests sent so far and the lines logged so far, oldest first.
\<close>

record world =
  lists :: "string \<Rightarrow> json list"
  published :: "(string \<times> json) list"
  calls :: "call list"
  logs :: "log_line list"

subsection \<open>Logging\<close>

text \<open>The first argument of each log function is the global \<open>currentLogLevel\<close>.\<close>

definition logDebug :: "LogLevel \<Rightarrow> string \<Rightarrow> string list \<Rightarrow> world \<Rightarrow> world" where
  "logDebug cur format v w =
     (if levelValue cur \<le> levelValue LogLevelDebug
      then w\<lparr>logs := logs w @ [(''[DEBUG] '' @ format, v)]\<rparr> else w)"

definition logInfo :: "LogLevel \<Rightarrow> string \<Rightarrow> string list \<Rightarrow> world \<Rightarrow> world" where
  "logInfo cur format v w =
     (if levelValue cur \<le> levelValue LogLevelInfo
      then w\<lparr>logs := logs w @ [(''[INFO] '' @ format, v)]\<rparr> else w)"

definition logWarning :: "LogLevel \<Rightarrow> string \<Rightarrow> string list \<Rightarrow> world \<Rightarrow> world" where
  "logWarning cur format v w =
     (if levelValue cur \<le> levelValue LogLevelWarning
      then w\<lparr>logs := logs w @ [(''[WARNING] '' @ format, v)]\<rparr> else w)"

definition logError :: "LogLevel \<Rightarrow> string \<Rightarrow> string list \<Rightarrow> world \<Rightarrow> world" where
  "logError cur format v w =
     (if levelValue cur \<le> levelValue LogLevelError
      then w\<lparr>logs := logs w @ [(''[ERROR] '' @ format, v)]\<rparr> else w)"

subsection \<open>Requests\<close>

definition redisPing :: "error option \<Rightarrow> world \<Rightarrow> error option \<times> world" where
  "redisPing resp w = (resp, w\<lparr>calls := calls w @ [Ping]\<rparr>)"

text \<open>\<open>RPUSH\<close> appends the value to the end of the list when it succeeds.\<close>

definition redisRPush :: "'p ext \<Rightarrow> string \<Rightarrow> json \<Rightarrow> world \<Rightarrow> error option \<times> world" where
  "redisRPush x key v w =
     (case rpush_resp x key v of
        Some err \<Rightarrow> (Some err, w\<lparr>calls := calls w @ [RPush key v]\<rparr>)
      | None \<Rightarrow>
          (None, w\<lparr>lists := (lists w)(key := lists w key @ [v]),
                   calls := calls w @ [RPush key v]\<rparr>))"

definition redisPublish :: "'p ext \<Rightarrow> string \<Rightarrow> json \<Rightarrow> world \<Rightarrow> error option \<times> world" where
  "redisPublish x chan v w =
     (case publish_resp x chan v of
        Some err \<Rightarrow> (Some err, w\<lparr>calls := calls w @ [Publish chan v]\<rparr>)
      | None \<Rightarrow>
          (None, w\<lparr>published := published w @ [(chan, v)],
                   calls := calls w @ [Publish chan v]\<rparr>))"

definition slackGetConversationHistory ::
  "'p ext \<Rightarrow> GetConversationHistoryParameters \<Rightarrow> world \<Rightarrow> (error + 'p Message list) \<times> world" where
  "slackGetConversationHistory x params w =
     (history_resp x params, w\<lparr>calls := calls w @ [GetConversationHistory params]\<rparr>)"

subsection \<open>Encoding the two outgoing structs\<close>

text \<open>
  \<open>json.Marshal\<close> of a \<open>PoppitPayload\<close> and of a \<open>TimeBombMessage\<close>: an object with one
  member per field, under the key of the field's tag. Neither can fail.
\<close>

definition marshalPoppitPayload :: "PoppitPayload \<Rightarrow> error + json" where
  "marshalPoppitPayload p =
     Inr (JObj [(''repo'', JStr (Repo p)),
                (''branch'', JStr (PoppitPayload_Branch p)),
                (''type'', JStr (PoppitPayload_Type p)),
                (''dir'', JStr (Dir p)),
                (''commands'', JArr (map JStr (Commands p)))])"

definition marshalTimeBombMessage :: "TimeBombMessage \<Rightarrow> error + json" where
  "marshalTimeBombMessage m =
     Inr (JObj [(''channel'', JStr (Channel m)),
                (''ts'', JStr (Ts m)),
                (''ttl'', JNum (sint (TTL m)))])"

subsection \<open>The metadata fetcher\<close>

definition getMessageMetadata ::
  "'p json_lib \<Rightarrow> 'p ext \<Rightarrow> string \<Rightarrow> string \<Rightarrow> world \<Rightarrow> (error + PRMetadata option) \<times> world" where
  "getMessageMetadata lib x channel timestamp w =
     (let params = \<lparr> ChannelID = channel, Latest = timestamp, Limit = 1,
                      Inclusive = True, IncludeAllMetadata = True \<rparr>
      in case slackGetConversationHistory x params w of
           (Inl err, w') \<Rightarrow> (Inl (Wrap ''failed to get conversation history'' err), w')
         | (Inr messages, w') \<Rightarrow>
             (case messages of
                [] \<Rightarrow> (Inl (Error (''no message found at timestamp '' @ timestamp)), w')
              | message # _ \<Rightarrow>
                  if EventType (Metadata message) = [] then (Inr None, w')
                  else
                    (case marshalEventPayload lib (EventPayload (Metadata message)) of
                       Inl err \<Rightarrow> (Inl (Wrap ''failed to marshal metadata'' err), w')
                     | Inr metadataJSON \<Rightarrow>
                         (case unmarshalPRMetadata lib metadataJSON of
                            Inl err \<Rightarrow> (Inl (Wrap ''failed to unmarshal PR metadata'' err), w')
                          | Inr metadata \<Rightarrow>
                              if PRNumber metadata = 0 \<or> Repository metadata = []
                              then (Inr None, w')
                              else (Inr (Some metadata), w')))))"

subsection \<open>The cleanup request\<close>

definition publishTimeBombMessage ::
  "Config \<Rightarrow> LogLevel \<Rightarrow> 'p ext \<Rightarrow> string \<Rightarrow> string \<Rightarrow> world \<Rightarrow> error option \<times> world" where
  "publishTimeBombMessage config cur x channel timestamp w =
     (let timeBombMsg = \<lparr> Channel = channel, Ts = timestamp, TTL = TimeBombTTL config \<rparr>
      in case marshalTimeBombMessage timeBombMsg of
           Inl err \<Rightarrow> (Some (Wrap ''failed to marshal timebomb message'' err), w)
         | Inr msgJSON \<Rightarrow>
             (case redisPublish x (TimeBombChannel config) msgJSON w of
                (Some err, w') \<Rightarrow>
                  (Some (Wrap (''failed to publish to '' @ TimeBombChannel config) err), w')
              | (None, w') \<Rightarrow>
                  (None,
                   logInfo cur ''Successfully set TTL of %d seconds on message %s in channel %s''
                     [showInt (sint (TimeBombTTL config)), timestamp, channel] w')))"

subsection \<open>The per-message pipeline\<close>

definition handleReactionMessage ::
  "'p json_lib \<Rightarrow> Config \<Rightarrow> LogLevel \<Rightarrow> 'p ext \<Rightarrow> string \<Rightarrow> world \<Rightarrow> error option \<times> world" where
  "handleReactionMessage lib config cur x payload w =
     (case unmarshalReactionEvent lib payload of
        Inl err \<Rightarrow> (Some (Wrap ''failed to unmarshal reaction event'' err), w)
      | Inr reactionEvent \<Rightarrow>
          if Reaction (Event reactionEvent) \<noteq> TargetEmoji config
          then (None, logDebug cur ''Ignoring reaction: %s'' [Reaction (Event reactionEvent)] w)
          else
            (let channel = Item_Channel (Item (Event reactionEvent));
                 timestamp = Item_Ts (Item (Event reactionEvent));
                 w1 = logInfo cur ''Processing %s reaction on message %s in channel %s''
                        [TargetEmoji config, timestamp, channel] w
             in case getMessageMetadata lib x channel timestamp w1 of
                  (Inl err, w2) \<Rightarrow> (Some (Wrap ''failed to get message metadata'' err), w2)
                | (Inr None, w2) \<Rightarrow>
                    (None, logDebug cur ''No PR metadata found in message, ignoring'' [] w2)
                | (Inr (Some metadata), w2) \<Rightarrow>
                    (let w3 = logInfo cur ''Found PR metadata: repo=%s, pr=%d''
                                [Repository metadata, showInt (sint (PRNumber metadata))] w2;
                         poppitPayload = \<lparr>
                           Repo = Repository metadata,
                           PoppitPayload_Branch = TargetBranch config,
                           PoppitPayload_Type = EventAction metadata,
                           Dir = WorkDir config,
                           Commands =
                             [''gh pr --repo '' @ Repository metadata @ '' ready ''
                                @ showInt (sint (PRNumber metadata)),
                              ''gh pr --repo '' @ Repository metadata @ '' merge ''
                                @ showInt (sint (PRNumber metadata)) @ '' --squash''] \<rparr>
                     in case marshalPoppitPayload poppitPayload of
                          Inl err \<Rightarrow> (Some (Wrap ''failed to marshal poppit payload'' err), w3)
                        | Inr payloadJSON \<Rightarrow>
                            (case redisRPush x (PoppitQueue config) payloadJSON w3 of
                               (Some err, w4) \<Rightarrow>
                                 (Some (Wrap (''failed to push to '' @ PoppitQueue config) err), w4)
                             | (None, w4) \<Rightarrow>
                                 (let w5 = logInfo cur
                                        ''Successfully queued merge command for PR %d in %s''
                                        [showInt (sint (PRNumber metadata)), Repository metadata] w4
                                  in case publishTimeBombMessage config cur x channel timestamp w5 of
                                       (Some err, w6) \<Rightarrow>
                                         (None, logWarning cur ''Failed to set TTL on message: %v''
                                                  [errorString err] w6)
                                     | (None, w6) \<Rightarrow> (None, w6))))))"

subsection \<open>The dispatch loop\<close>

text \<open>
  One turn of the loop receives from the subscription: an error, or a message together
  with what Slack and Redis answer while it is handled. The list holds the turns taken
  before the context is cancelled, in the order the bus delivers them; at its end the loop
  finds \<open>ctx.Done()\<close> ready and returns.
\<close>

datatype 'p received = ReceiveError error | Received string "'p ext"

fun dispatch :: "'p json_lib \<Rightarrow> Config \<Rightarrow> LogLevel \<Rightarrow> 'p received list \<Rightarrow> world \<Rightarrow> world" where
  "dispatch lib config cur [] w = w"
| "dispatch lib config cur (ReceiveError err # rest) w =
     dispatch lib config cur rest (logError cur ''Error receiving message: %v'' [errorString err] w)"
| "dispatch lib config cur (Received payload x # rest) w =
     (case handleReactionMessage lib config cur x payload w of
        (Some err, w') \<Rightarrow>
          dispatch lib config cur rest
            (logError cur ''Error handling reaction message: %v'' [errorString err] w')
      | (None, w') \<Rightarrow> dispatch lib config cur rest w')"

definition processReactions ::
  "'p json_lib \<Rightarrow> Config \<Rightarrow> LogLevel \<Rightarrow> 'p received list \<Rightarrow> world \<Rightarrow> world" where
  "processReactions lib config cur turns w =
     dispatch lib config cur turns
       (logInfo cur ''Subscribed to slack-relay-reaction-added channel'' []
          (w\<lparr>calls := calls w @ [Subscribe ''slack-relay-reaction-added'']\<rparr>))"

subsection \<open>Startup\<close>

text \<open>
  \<open>main\<close> up to the shutdown signal: the configuration, the Redis client and its
  connectivity check, then the dispatch loop for the turns it takes before the signal
  cancels the context. The first component of the result is the line of \<open>log.Fatal\<close> or
  \<open>log.Fatalf\<close> when the process exits through one, the second the world it leaves. The
  lines of \<open>loadConfig\<close> go to the same log.
\<close>

definition main ::
  "'p json_lib \<Rightarrow> environ \<Rightarrow> error option \<Rightarrow> 'p received list \<Rightarrow> world
     \<Rightarrow> log_line option \<times> world" where
  "main lib env ping_resp turns w =
     (case loadConfig env of
        (lines, Inl fatal) \<Rightarrow> (Some (fatal, []), w\<lparr>logs := logs w @ lines @ [(fatal, [])]\<rparr>)
      | (lines, Inr config) \<Rightarrow>
          (let cur = parseLogLevel (LogLevel config);
               w0 = w\<lparr>logs := logs w @ lines,
                       calls := calls w @ [NewClient (RedisAddr config) (RedisPassword config)
                                             (RedisDB config)]\<rparr>
           in case redisPing ping_resp w0 of
                (Some err, w1) \<Rightarrow>
                  (Some (''Failed to connect to Redis: %v'', [errorString err]),
                   w1\<lparr>logs := logs w1 @ [(''Failed to connect to Redis: %v'', [errorString err])]\<rparr>)
              | (None, w1) \<Rightarrow>
                  (let w2 = logInfo cur ''Connected to Redis successfully'' [] w1;
                       w3 = processReactions lib config cur turns w2
                   in (None, logInfo cur ''Shutdown signal received, exiting...'' [] w3))))"

subsection \<open>Reading a run\<close>

text \<open>The \<open>RPUSH\<close> and the \<open>PUBLISH\<close> requests among a sequence of calls, in order.\<close>

fun pushes :: "call list \<Rightarrow> (string \<times> json) list" where
  "pushes [] = []"
| "pushes (RPush key v # cs) = (key, v) # pushes cs"
| "pushes (c # cs) = pushes cs"

fun cleanups :: "call list \<Rightarrow> (string \<times> json) list" where
  "cleanups [] = []"
| "cleanups (Publish chan v # cs) = (chan, v) # cleanups cs"
| "cleanups (c # cs) = cleanups cs"

definition emptyWorld :: world where
  "emptyWorld = \<lparr> lists = (\<lambda>_. []), published = [], calls = [], logs = [] \<rparr>"

text \<open>What the metadata fetcher returns; it does not depend on the world it starts in.\<close>

definition fetched :: "'p json_lib \<Rightarrow> 'p ext \<Rightarrow> string \<Rightarrow> string \<Rightarrow> error + PRMetadata option" where
  "fetched lib x channel timestamp = fst (getMessageMetadata lib x channel timestamp emptyWorld)"

text \<open>
  The entries one turn of the loop appends to the work queue: those its message leaves in
  the queue when it is handled on its own.
\<close>

fun triggered :: "'p json_lib \<Rightarrow> Config \<Rightarrow> LogLevel \<Rightarrow> 'p received \<Rightarrow> json list" where
  "triggered lib config cur (ReceiveError err) = []"
| "triggered lib config cur (Received payload x) =
     lists (snd (handleReactionMessage lib config cur x payload emptyWorld)) (PoppitQueue config)"

subsection \<open>A sample run\<close>

text \<open>
  The configuration \<open>loadConfig\<close> builds when only the token is set, the reaction event and
  the pull-request metadata of the README, and a JSON library and an outside world that
  serve them. The texts stand for the JSON the bus and Slack would carry.
\<close>

definition sampleConfig :: Config where
  "sampleConfig = \<lparr>
     SlackBotToken = ''xoxb-test'', RedisAddr = ''localhost:6379'', RedisPassword = [],
     RedisDB = 0, WorkDir = ''/tmp/vibemerge'', TargetEmoji = ''heart_eyes_cat'',
     TargetBranch = ''refs/heads/main'', PoppitQueue = ''poppit-commands'',
     TimeBombChannel = ''timebomb-messages'', TimeBombTTL = 86400, LogLevel = ''INFO'' \<rparr>"

definition sampleEvent :: "string \<Rightarrow> ReactionEvent" where
  "sampleEvent reaction = \<lparr>
     Token = [], TeamID = [], ContextTeamID = [], ContextEnterpriseID = JNull, APIAppID = [],
     Event = \<lparr> Event_Type = ''reaction_added'', User = ''U123456'', Reaction = reaction,
               Item = \<lparr> Item_Type = ''message'', Item_Channel = ''C123456'',
                        Item_Ts = ''1766236581.981479'' \<rparr>,
               ItemUser = [], EventTs = [] \<rparr>,
     Type = [], EventID = [], EventTime = 0, Authorizations = [],
     IsExtSharedChannel = False, EventContext = [] \<rparr>"

definition sampleMetadata :: PRMetadata where
  "sampleMetadata = \<lparr>
     PRNumber = 42, Repository = ''org/repo'', PRURL = ''https://github.com/org/repo/pull/42'',
     Author = ''username123'', Branch = ''feature/add-metadata'',
     EventAction = ''review_requested'' \<rparr>"

definition sampleLib :: "string json_lib" where
  "sampleLib = \<lparr>
     unmarshalReactionEvent =
       (\<lambda>s. if s = ''reaction heart_eyes_cat'' then Inr (sampleEvent ''heart_eyes_cat'')
            else if s = ''reaction thumbsup'' then Inr (sampleEvent ''thumbsup'')
            else Inl (Error ''invalid character'')),
     marshalEventPayload = (\<lambda>p. Inr p),
     unmarshalPRMetadata =
       (\<lambda>s. if s = ''pr 42 of org/repo'' then Inr sampleMetadata
            else if s = ''pr 7 of org/tools''
              then Inr (sampleMetadata\<lparr>PRNumber := 7, Repository := ''org/tools''\<rparr>)
            else Inl (Error ''cannot unmarshal'')) \<rparr>"

definition sampleExt :: "string ext" where
  "sampleExt = \<lparr>
     history_resp =
       (\<lambda>_. Inr [\<lparr> Metadata = \<lparr> EventType = ''pr_review'',
                                 EventPayload = ''pr 42 of org/repo'' \<rparr> \<rparr>]),
     rpush_resp = (\<lambda>_ _. None),
     publish_resp = (\<lambda>_ _. None) \<rparr>"

text \<open>The same outside world with the cleanup channel, or the work queue, refusing requests.\<close>

definition sampleExtCleanupDown :: "string ext" where
  "sampleExtCleanupDown = sampleExt\<lparr>publish_resp := (\<lambda>_ _. Some (Error ''connection refused''))\<rparr>"

definition sampleExtQueueDown :: "string ext" where
  "sampleExtQueueDown = sampleExt\<lparr>rpush_resp := (\<lambda>_ _. Some (Error ''connection refused''))\<rparr>"

text \<open>And one in which the message reacted to announces another pull request.\<close>

definition sampleExtTools :: "string ext" where
  "sampleExtTools = sampleExt\<lparr>history_resp :=
     (\<lambda>_. Inr [\<lparr> Metadata = \<lparr> EventType = ''pr_review'',
                               EventPayload = ''pr 7 of org/tools'' \<rparr> \<rparr>])\<rparr>"

section \<open>Properties\<close>

subsection \<open>Auxiliary facts\<close>

lemma log_lists [simp]:
  "lists (logDebug c f v w) = lists w" "lists (logInfo c f v w) = lists w"
  "lists (logWarning c f v w) = lists w" "lists (logError c f v w) = lists w"
  by (simp_all add: logDebug_def logInfo_def logWarning_def logError_def)

lemma log_published [simp]:
  "published (logDebug c f v w) = published w" "published (logInfo c f v w) = published w"
  "published (logWarning c f v w) = published w" "published (logError c f v w) = published w"
  by (simp_all add: logDebug_def logInfo_def logWarning_def logError_def)

lemma log_calls [simp]:
  "calls (logDebug c f v w) = calls w" "calls (logInfo c f v w) = calls w"
  "calls (logWarning c f v w) = calls w" "calls (logError c f v w) = calls w"
  by (simp_all add: logDebug_def logInfo_def logWarning_def logError_def)

lemma log_only_logs:
  "\<exists>ls. logDebug c f v w = w\<lparr>logs := logs w @ ls\<rparr>"
  "\<exists>ls. logInfo c f v w = w\<lparr>logs := logs w @ ls\<rparr>"
  "\<exists>ls. logWarning c f v w = w\<lparr>logs := logs w @ ls\<rparr>"
  "\<exists>ls. logError c f v w = w\<lparr>logs := logs w @ ls\<rparr>"
proof -
  have nil: "\<exists>ls. w = w\<lparr>logs := logs w @ ls\<rparr>"
    by (rule exI [of _ "[]"]) simp
  show "\<exists>ls. logDebug c f v w = w\<lparr>logs := logs w @ ls\<rparr>"
    unfolding logDebug_def using nil by (simp split: if_splits) blast
  show "\<exists>ls. logInfo c f v w = w\<lparr>logs := logs w @ ls\<rparr>"
    unfolding logInfo_def using nil by (simp split: if_splits) blast
  show "\<exists>ls. logWarning c f v w = w\<lparr>logs := logs w @ ls\<rparr>"
    unfolding logWarning_def using nil by (simp split: if_splits) blast
  show "\<exists>ls. logError c f v w = w\<lparr>logs := logs w @ ls\<rparr>"
    unfolding logError_def using nil by (simp split: if_splits) blast
qed

lemma pushes_append: "pushes (xs @ ys) = pushes xs @ pushes ys"
  by (induction xs rule: pushes.induct) simp_all

lemma cleanups_append: "cleanups (xs @ ys) = cleanups xs @ cleanups ys"
  by (induction xs rule: cleanups.induct) simp_all

lemma getMessageMetadata_snd:
  "snd (getMessageMetadata lib x channel timestamp w) =
     w\<lparr>calls := calls w @ [GetConversationHistory
        \<lparr> ChannelID = channel, Latest = timestamp, Limit = 1,
          Inclusive = True, IncludeAllMetadata = True \<rparr>]\<rparr>"
  by (simp add: getMessageMetadata_def slackGetConversationHistory_def Let_def
      split: sum.splits list.splits)

lemma getMessageMetadata_fst:
  "fst (getMessageMetadata lib x channel timestamp w) =
   fst (getMessageMetadata lib x channel timestamp w')"
  by (simp add: getMessageMetadata_def slackGetConversationHistory_def Let_def
      split: sum.splits list.splits)

lemma fetched_eq:
  "fst (getMessageMetadata lib x channel timestamp w) = fetched lib x channel timestamp"
  unfolding fetched_def by (rule getMessageMetadata_fst)

lemma getMessageMetadata_eq:
  "getMessageMetadata lib x channel timestamp w =
     (fetched lib x channel timestamp,
      w\<lparr>calls := calls w @ [GetConversationHistory
        \<lparr> ChannelID = channel, Latest = timestamp, Limit = 1,
          Inclusive = True, IncludeAllMetadata = True \<rparr>]\<rparr>)"
  using getMessageMetadata_snd [of lib x channel timestamp w]
    fetched_eq [of lib x channel timestamp w]
  by (metis prod.collapse)

text \<open>The outcome of the pipeline on each of its paths.\<close>

lemma handle_decode_error:
  "unmarshalReactionEvent lib payload = Inl e \<Longrightarrow>
   handleReactionMessage lib config cur x payload w =
     (Some (Wrap ''failed to unmarshal reaction event'' e), w)"
  by (simp add: handleReactionMessage_def)

lemma handle_mismatch:
  "unmarshalReactionEvent lib payload = Inr ev \<Longrightarrow>
   Reaction (Event ev) \<noteq> TargetEmoji config \<Longrightarrow>
   handleReactionMessage lib config cur x payload w =
     (None, logDebug cur ''Ignoring reaction: %s'' [Reaction (Event ev)] w)"
  by (simp add: handleReactionMessage_def)

lemma handle_fetch_error:
  assumes "unmarshalReactionEvent lib payload = Inr ev"
    and "Reaction (Event ev) = TargetEmoji config"
    and "fst (getMessageMetadata lib x (Item_Channel (Item (Event ev)))
               (Item_Ts (Item (Event ev))) w) = Inl e"
  shows "fst (handleReactionMessage lib config cur x payload w) =
           Some (Wrap ''failed to get message metadata'' e)"
    and "calls (snd (handleReactionMessage lib config cur x payload w)) =
           calls w @ [GetConversationHistory
             \<lparr> ChannelID = Item_Channel (Item (Event ev)), Latest = Item_Ts (Item (Event ev)),
               Limit = 1, Inclusive = True, IncludeAllMetadata = True \<rparr>]"
    and "lists (snd (handleReactionMessage lib config cur x payload w)) = lists w"
    and "published (snd (handleReactionMessage lib config cur x payload w)) = published w"
  using assms
  by (simp_all add: handleReactionMessage_def Let_def getMessageMetadata_eq fetched_eq)

lemma handle_no_metadata:
  assumes "unmarshalReactionEvent lib payload = Inr ev"
    and "Reaction (Event ev) = TargetEmoji config"
    and "fst (getMessageMetadata lib x (Item_Channel (Item (Event ev)))
               (Item_Ts (Item (Event ev))) w) = Inr None"
  shows "fst (handleReactionMessage lib config cur x payload w) = None"
    and "calls (snd (handleReactionMessage lib config cur x payload w)) =
           calls w @ [GetConversationHistory
             \<lparr> ChannelID = Item_Channel (Item (Event ev)), Latest = Item_Ts (Item (Event ev)),
               Limit = 1, Inclusive = True, IncludeAllMetadata = True \<rparr>]"
    and "lists (snd (handleReactionMessage lib config cur x payload w)) = lists w"
    and "published (snd (handleReactionMessage lib config cur x payload w)) = published w"
  using assms
  by (simp_all add: handleReactionMessage_def Let_def getMessageMetadata_eq fetched_eq)

lemma handle_valid:
  fixes config :: Config and ev :: ReactionEvent and md :: PRMetadata
  defines "doc \<equiv> JObj [(''repo'', JStr (Repository md)),
                (''branch'', JStr (TargetBranch config)),
                (''type'', JStr (EventAction md)),
                (''dir'', JStr (WorkDir config)),
                (''commands'', JArr [
                   JStr (''gh pr --repo '' @ Repository md @ '' ready ''
                           @ showInt (sint (PRNumber md))),
                   JStr (''gh pr --repo '' @ Repository md @ '' merge ''
                           @ showInt (sint (PRNumber md)) @ '' --squash'')])]"
    and "req \<equiv> JObj [(''channel'', JStr (Item_Channel (Item (Event ev)))),
                (''ts'', JStr (Item_Ts (Item (Event ev)))),
                (''ttl'', JNum (sint (TimeBombTTL config)))]"
  assumes "unmarshalReactionEvent lib payload = Inr ev"
    and "Reaction (Event ev) = TargetEmoji config"
    and "fst (getMessageMetadata lib x (Item_Channel (Item (Event ev)))
               (Item_Ts (Item (Event ev))) w) = Inr (Some md)"
  shows "fst (handleReactionMessage lib config cur x payload w) =
           (case rpush_resp x (PoppitQueue config) doc of
              Some err \<Rightarrow> Some (Wrap (''failed to push to '' @ PoppitQueue config) err)
            | None \<Rightarrow> None)"
    and "calls (snd (handleReactionMessage lib config cur x payload w)) =
           calls w @ [GetConversationHistory
             \<lparr> ChannelID = Item_Channel (Item (Event ev)), Latest = Item_Ts (Item (Event ev)),
               Limit = 1, Inclusive = True, IncludeAllMetadata = True \<rparr>,
             RPush (PoppitQueue config) doc]
           @ (if rpush_resp x (PoppitQueue config) doc = None
              then [Publish (TimeBombChannel config) req] else [])"
    and "lists (snd (handleReactionMessage lib config cur x payload w)) =
           (if rpush_resp x (PoppitQueue config) doc = None
            then (lists w)(PoppitQueue config := lists w (PoppitQueue config) @ [doc])
            else lists w)"
    and "published (snd (handleReactionMessage lib config cur x payload w)) =
           (if rpush_resp x (PoppitQueue config) doc = None
               \<and> publish_resp x (TimeBombChannel config) req = None
            then published w @ [(TimeBombChannel config, req)]
            else published w)"
  using assms(3-5) unfolding doc_def req_def
  by (simp_all add: handleReactionMessage_def Let_def
      getMessageMetadata_eq fetched_eq marshalPoppitPayload_def
      marshalTimeBombMessage_def publishTimeBombMessage_def redisRPush_def redisPublish_def
      split: option.splits)

lemma handle_publish_failed:
  assumes "unmarshalReactionEvent lib payload = Inr ev"
    and "Reaction (Event ev) = TargetEmoji config"
    and "fst (getMessageMetadata lib x (Item_Channel (Item (Event ev)))
               (Item_Ts (Item (Event ev))) w) = Inr (Some md)"
    and "rpush_resp x (PoppitQueue config)
           (JObj [(''repo'', JStr (Repository md)),
                (''branch'', JStr (TargetBranch config)),
                (''type'', JStr (EventAction md)),
                (''dir'', JStr (WorkDir config)),
                (''commands'', JArr [
                   JStr (''gh pr --repo '' @ Repository md @ '' ready ''
                           @ showInt (sint (PRNumber md))),
                   JStr (''gh pr --repo '' @ Repository md @ '' merge ''
                           @ showInt (sint (PRNumber md)) @ '' --squash'')])]) = None"
    and "publish_resp x (TimeBombChannel config)
           (JObj [(''channel'', JStr (Item_Channel (Item (Event ev)))),
                (''ts'', JStr (Item_Ts (Item (Event ev)))),
                (''ttl'', JNum (sint (TimeBombTTL config)))]) = Some err"
  shows "\<exists>w6. snd (handleReactionMessage lib config cur x payload w) =
           logWarning cur ''Failed to set TTL on message: %v''
             [errorString (Wrap (''failed to publish to '' @ TimeBombChannel config) err)] w6"
  using assms
  by (simp add: handleReactionMessage_def Let_def
      getMessageMetadata_eq fetched_eq marshalPoppitPayload_def
      marshalTimeBombMessage_def publishTimeBombMessage_def redisRPush_def redisPublish_def)
    blast

lemma handle_queue_changed:
  assumes ch: "lists (snd (handleReactionMessage lib config cur x payload w)) \<noteq> lists w"
  obtains ev md where
    "unmarshalReactionEvent lib payload = Inr ev"
    "Reaction (Event ev) = TargetEmoji config"
    "fst (getMessageMetadata lib x (Item_Channel (Item (Event ev)))
               (Item_Ts (Item (Event ev))) w) = Inr (Some md)"
    "rpush_resp x (PoppitQueue config)
           (JObj [(''repo'', JStr (Repository md)),
                (''branch'', JStr (TargetBranch config)),
                (''type'', JStr (EventAction md)),
                (''dir'', JStr (WorkDir config)),
                (''commands'', JArr [
                   JStr (''gh pr --repo '' @ Repository md @ '' ready ''
                           @ showInt (sint (PRNumber md))),
                   JStr (''gh pr --repo '' @ Repository md @ '' merge ''
                           @ showInt (sint (PRNumber md)) @ '' --squash'')])]) = None"
proof (cases "unmarshalReactionEvent lib payload")
  case (Inl e)
  from handle_decode_error [OF Inl, of config cur x w] ch show ?thesis by simp
next
  case (Inr ev)
  show ?thesis
  proof (cases "Reaction (Event ev) = TargetEmoji config")
    case False
    from handle_mismatch [OF Inr False, of cur x w] ch show ?thesis by simp
  next
    case True
    show ?thesis
    proof (cases "fst (getMessageMetadata lib x (Item_Channel (Item (Event ev)))
               (Item_Ts (Item (Event ev))) w)")
      case (Inl e)
      from handle_fetch_error(3) [OF Inr True Inl, of cur] ch show ?thesis by simp
    next
      case r: (Inr r)
      show ?thesis
      proof (cases r)
        case None
        with r handle_no_metadata(3) [OF Inr True, of x w cur] ch show ?thesis by simp
      next
        case (Some md)
        with r have f: "fst (getMessageMetadata lib x (Item_Channel (Item (Event ev)))
               (Item_Ts (Item (Event ev))) w) = Inr (Some md)" by simp
        from handle_valid(3) [OF Inr True f, of cur] ch
        have "rpush_resp x (PoppitQueue config)
           (JObj [(''repo'', JStr (Repository md)),
                (''branch'', JStr (TargetBranch config)),
                (''type'', JStr (EventAction md)),
                (''dir'', JStr (WorkDir config)),
                (''commands'', JArr [
                   JStr (''gh pr --repo '' @ Repository md @ '' ready ''
                           @ showInt (sint (PRNumber md))),
                   JStr (''gh pr --repo '' @ Repository md @ '' merge ''
                           @ showInt (sint (PRNumber md)) @ '' --squash'')])]) = None"
          by (simp split: if_splits)
        with Inr True f that show ?thesis by blast
      qed
    qed
  qed
qed

lemma handle_cleanup_attempted:
  assumes ch: "cleanups (calls (snd (handleReactionMessage lib config cur x payload w)))
                 \<noteq> cleanups (calls w)
             \<or> published (snd (handleReactionMessage lib config cur x payload w)) \<noteq> published w"
  obtains ev md where
    "unmarshalReactionEvent lib payload = Inr ev"
    "Reaction (Event ev) = TargetEmoji config"
    "fst (getMessageMetadata lib x (Item_Channel (Item (Event ev)))
               (Item_Ts (Item (Event ev))) w) = Inr (Some md)"
    "rpush_resp x (PoppitQueue config)
           (JObj [(''repo'', JStr (Repository md)),
                (''branch'', JStr (TargetBranch config)),
                (''type'', JStr (EventAction md)),
                (''dir'', JStr (WorkDir config)),
                (''commands'', JArr [
                   JStr (''gh pr --repo '' @ Repository md @ '' ready ''
                           @ showInt (sint (PRNumber md))),
                   JStr (''gh pr --repo '' @ Repository md @ '' merge ''
                           @ showInt (sint (PRNumber md)) @ '' --squash'')])]) = None"
proof (cases "unmarshalReactionEvent lib payload")
  case (Inl e)
  from handle_decode_error [OF Inl, of config cur x w] ch show ?thesis by simp
next
  case (Inr ev)
  show ?thesis
  proof (cases "Reaction (Event ev) = TargetEmoji config")
    case False
    from handle_mismatch [OF Inr False, of cur x w] ch show ?thesis by simp
  next
    case True
    show ?thesis
    proof (cases "fst (getMessageMetadata lib x (Item_Channel (Item (Event ev)))
               (Item_Ts (Item (Event ev))) w)")
      case (Inl e)
      from handle_fetch_error(2,4) [OF Inr True Inl, of cur] ch show ?thesis
        by (simp add: cleanups_append)
    next
      case r: (Inr r)
      show ?thesis
      proof (cases r)
        case None
        with r handle_no_metadata(2,4) [OF Inr True, of x w cur] ch show ?thesis
          by (simp add: cleanups_append)
      next
        case (Some md)
        with r have f: "fst (getMessageMetadata lib x (Item_Channel (Item (Event ev)))
               (Item_Ts (Item (Event ev))) w) = Inr (Some md)" by simp
        from handle_valid(2,4) [OF Inr True f, of cur] ch
        have "rpush_resp x (PoppitQueue config)
           (JObj [(''repo'', JStr (Repository md)),
                (''branch'', JStr (TargetBranch config)),
                (''type'', JStr (EventAction md)),
                (''dir'', JStr (WorkDir config)),
                (''commands'', JArr [
                   JStr (''gh pr --repo '' @ Repository md @ '' ready ''
                           @ showInt (sint (PRNumber md))),
                   JStr (''gh pr --repo '' @ Repository md @ '' merge ''
                           @ showInt (sint (PRNumber md)) @ '' --squash'')])]) = None"
          by (auto simp: cleanups_append split: if_splits)
        with Inr True f that show ?thesis by blast
      qed
    qed
  qed
qed

lemma handle_lists_frame:
  "lists (snd (handleReactionMessage lib config cur x payload w)) k =
   lists w k @ lists (snd (handleReactionMessage lib config cur x payload emptyWorld)) k"
proof (cases "unmarshalReactionEvent lib payload")
  case (Inl e)
  then show ?thesis by (simp add: handle_decode_error emptyWorld_def)
next
  case (Inr ev)
  show ?thesis
  proof (cases "Reaction (Event ev) = TargetEmoji config")
    case False
    with Inr show ?thesis by (simp add: handle_mismatch emptyWorld_def)
  next
    case True
    show ?thesis
    proof (cases "fetched lib x (Item_Channel (Item (Event ev))) (Item_Ts (Item (Event ev)))")
      case (Inl e)
      then have "fst (getMessageMetadata lib x (Item_Channel (Item (Event ev)))
               (Item_Ts (Item (Event ev))) w') = Inl e" for w'
        by (simp add: fetched_eq)
      from handle_fetch_error(3) [OF Inr True this] show ?thesis
        by (simp add: emptyWorld_def)
    next
      case r: (Inr r)
      show ?thesis
      proof (cases r)
        case None
        with r have "fst (getMessageMetadata lib x (Item_Channel (Item (Event ev)))
               (Item_Ts (Item (Event ev))) w') = Inr None" for w'
          by (simp add: fetched_eq)
        from handle_no_metadata(3) [OF Inr True this] show ?thesis
          by (simp add: emptyWorld_def)
      next
        case (Some md)
        with r have "fst (getMessageMetadata lib x (Item_Channel (Item (Event ev)))
               (Item_Ts (Item (Event ev))) w') = Inr (Some md)" for w'
          by (simp add: fetched_eq)
        from handle_valid(3) [OF Inr True this] show ?thesis
          by (simp add: emptyWorld_def)
      qed
    qed
  qed
qed

lemma triggered_length: "length (triggered lib config cur t) \<le> 1"
proof (cases t)
  case (ReceiveError e)
  then show ?thesis by simp
next
  case (Received payload x)
  show ?thesis
  proof (cases "lists (snd (handleReactionMessage lib config cur x payload emptyWorld))
                  = lists emptyWorld")
    case True
    with Received show ?thesis by (simp add: emptyWorld_def)
  next
    case False
    then obtain ev md where h:
      "unmarshalReactionEvent lib payload = Inr ev"
      "Reaction (Event ev) = TargetEmoji config"
      "fst (getMessageMetadata lib x (Item_Channel (Item (Event ev)))
               (Item_Ts (Item (Event ev))) emptyWorld) = Inr (Some md)"
      by (rule handle_queue_changed)
    from handle_valid(3) [OF h, of cur] Received show ?thesis
      by (simp add: emptyWorld_def)
  qed
qed

lemma dispatch_lists:
  "lists (dispatch lib config cur turns w) (PoppitQueue config) =
   lists w (PoppitQueue config) @ concat (map (triggered lib config cur) turns)"
proof (induction turns arbitrary: w)
  case Nil
  then show ?case by simp
next
  case (Cons t turns)
  show ?case
  proof (cases t)
    case (ReceiveError e)
    then show ?thesis by (simp add: Cons.IH)
  next
    case (Received payload x)
    obtain r w' where hr: "handleReactionMessage lib config cur x payload w = (r, w')"
      by (cases "handleReactionMessage lib config cur x payload w")
    have "lists w' (PoppitQueue config) =
          lists w (PoppitQueue config) @ triggered lib config cur t"
      using handle_lists_frame [of lib config cur x payload w "PoppitQueue config"] hr Received
      by simp
    then show ?thesis
      using Received hr by (cases r) (simp_all add: Cons.IH)
  qed
qed

text \<open>Configuration and startup.\<close>

lemma getEnv_nil: "getEnv env key [] = Getenv env key"
  by (simp add: getEnv_def Let_def)

lemma loadConfig_snd:
  "snd (loadConfig env) =
     (if Getenv env ''SLACK_BOT_TOKEN'' = []
      then Inl ''SLACK_BOT_TOKEN environment variable is required''
      else Inr \<lparr>
            SlackBotToken = Getenv env ''SLACK_BOT_TOKEN'',
            RedisAddr = getEnv env ''REDIS_ADDR'' ''localhost:6379'',
            RedisPassword = Getenv env ''REDIS_PASSWORD'',
            RedisDB = 0,
            WorkDir = getEnv env ''WORK_DIR'' ''/tmp/vibemerge'',
            TargetEmoji = getEnv env ''TARGET_EMOJI'' ''heart_eyes_cat'',
            TargetBranch = getEnv env ''TARGET_BRANCH'' ''refs/heads/main'',
            PoppitQueue = getEnv env ''POPPIT_QUEUE'' ''poppit-commands'',
            TimeBombChannel = getEnv env ''TIMEBOMB_CHANNEL'' ''timebomb-messages'',
            TimeBombTTL = fst (getEnvInt env ''TIMEBOMB_TTL'' 86400),
            LogLevel = getEnv env ''LOG_LEVEL'' ''INFO'' \<rparr>)"
  by (simp add: loadConfig_def getEnv_nil Let_def split: prod.splits)

lemma loadConfig_RedisDB: "snd (loadConfig env) = Inr config \<Longrightarrow> RedisDB config = 0"
  by (auto simp: loadConfig_snd split: if_splits)

lemma main_fatal:
  "snd (loadConfig env) = Inl fatal \<Longrightarrow>
   main lib env ping_resp turns w =
     (Some (fatal, []), w\<lparr>logs := logs w @ fst (loadConfig env) @ [(fatal, [])]\<rparr>)"
  by (cases "loadConfig env") (simp add: main_def)

lemma dispatch_calls_prefix:
  "\<exists>more. calls (dispatch lib config cur turns w) = calls w @ more"
proof (induction turns arbitrary: w)
  case Nil
  then show ?case by simp
next
  case (Cons t turns)
  show ?case
  proof (cases t)
    case (ReceiveError e)
    with Cons.IH [of "logError cur ''Error receiving message: %v'' [errorString e] w"]
    show ?thesis by simp
  next
    case (Received payload x)
    obtain r w' where hr: "handleReactionMessage lib config cur x payload w = (r, w')"
      by (cases "handleReactionMessage lib config cur x payload w")
    have "\<exists>m. calls w' = calls w @ m"
    proof (cases "unmarshalReactionEvent lib payload")
      case (Inl e)
      with hr show ?thesis by (simp add: handle_decode_error)
    next
      case (Inr ev)
      show ?thesis
      proof (cases "Reaction (Event ev) = TargetEmoji config")
        case False
        with Inr hr show ?thesis by (auto simp add: handle_mismatch)
      next
        case True
        show ?thesis
        proof (cases "fst (getMessageMetadata lib x (Item_Channel (Item (Event ev)))
               (Item_Ts (Item (Event ev))) w)")
          case (Inl e)
          from handle_fetch_error(2) [OF Inr True Inl, of cur] hr show ?thesis by simp
        next
          case r: (Inr r)
          show ?thesis
          proof (cases r)
            case None
            with r handle_no_metadata(2) [OF Inr True, of x w cur] hr show ?thesis by simp
          next
            case (Some md)
            with r have f: "fst (getMessageMetadata lib x (Item_Channel (Item (Event ev)))
               (Item_Ts (Item (Event ev))) w) = Inr (Some md)" by simp
            from handle_valid(2) [OF Inr True f, of cur] hr show ?thesis by simp
          qed
        qed
      qed
    qed
    then obtain m where m: "calls w' = calls w @ m" by blast
    show ?thesis
    proof (cases r)
      case None
      with Cons.IH [of w'] m Received hr show ?thesis by auto
    next
      case (Some err)
      with Cons.IH [of "logError cur ''Error handling reaction message: %v'' [errorString err] w'"]
        m Received hr show ?thesis by auto
    qed
  qed
qed

lemma main_started:
  assumes "snd (loadConfig env) = Inr config"
  shows "\<exists>more. calls (snd (main lib env ping_resp turns w)) =
           calls w @ [NewClient (RedisAddr config) (RedisPassword config) (RedisDB config), Ping]
             @ more"
proof (cases ping_resp)
  case (Some err)
  with assms show ?thesis
    by (cases "loadConfig env") (simp add: main_def redisPing_def Let_def)
next
  case None
  obtain ls where lc: "loadConfig env = (ls, Inr config)"
    using assms by (cases "loadConfig env") simp
  let ?cur = "parseLogLevel (LogLevel config)"
  let ?w2 = "logInfo ?cur ''Connected to Redis successfully'' []
     (w\<lparr>logs := logs w @ ls,
        calls := calls w @ [NewClient (RedisAddr config) (RedisPassword config) (RedisDB config)]
                 @ [Ping]\<rparr>)"
  let ?w2' = "logInfo ?cur ''Subscribed to slack-relay-reaction-added channel'' []
          (?w2\<lparr>calls := calls ?w2 @ [Subscribe ''slack-relay-reaction-added'']\<rparr>)"
  obtain more where
    "calls (dispatch lib config ?cur turns ?w2') = calls ?w2' @ more"
    using dispatch_calls_prefix by blast
  with None lc show ?thesis
    by (simp add: main_def redisPing_def Let_def processReactions_def)
qed

lemma Getenv_empty_unset: "Getenv (env(key \<mapsto> [])) = Getenv (env(key := None))"
  by (rule ext) (simp add: Getenv_def)

lemma loadConfig_cong:
  assumes "Getenv e1 = Getenv e2"
  shows "loadConfig e1 = loadConfig e2"
  unfolding loadConfig_def getEnv_def getEnvInt_def assms ..

text \<open>Facts about the sample run.\<close>

lemmas sample_defs = sampleLib_def sampleExt_def sampleConfig_def sampleEvent_def
  sampleMetadata_def emptyWorld_def

lemma sample_fetched:
  "fst (getMessageMetadata sampleLib sampleExt ''C123456'' ''1766236581.981479'' emptyWorld)
     = Inr (Some sampleMetadata)"
  by (simp add: getMessageMetadata_def slackGetConversationHistory_def sample_defs)

lemma showInt_42: "showInt 42 = ''42''"
  by (simp add: showInt_def showNat.simps digitChar_def)

lemma sample_decode:
  "unmarshalReactionEvent sampleLib ''reaction heart_eyes_cat'' = Inr (sampleEvent ''heart_eyes_cat'')"
  by (simp add: sampleLib_def)

lemma sample_match: "Reaction (Event (sampleEvent ''heart_eyes_cat'')) = TargetEmoji sampleConfig"
  by (simp add: sampleEvent_def sampleConfig_def)

lemma sample_item:
  "Item_Channel (Item (Event (sampleEvent r))) = ''C123456''"
  "Item_Ts (Item (Event (sampleEvent r))) = ''1766236581.981479''"
  by (simp_all add: sampleEvent_def)

lemma sample_fetched_any:
  "history_resp x = history_resp sampleExt \<Longrightarrow>
   fst (getMessageMetadata sampleLib x (Item_Channel (Item (Event (sampleEvent r))))
          (Item_Ts (Item (Event (sampleEvent r)))) w) = Inr (Some sampleMetadata)"
  by (simp add: getMessageMetadata_def slackGetConversationHistory_def sampleLib_def
      sampleExt_def sampleMetadata_def)

lemma sample_history:
  "history_resp sampleExtCleanupDown = history_resp sampleExt"
  "history_resp sampleExtQueueDown = history_resp sampleExt"
  by (simp_all add: sampleExtCleanupDown_def sampleExtQueueDown_def)

lemma sample_world: "lists emptyWorld k = []" "calls emptyWorld = []" "published emptyWorld = []"
  "logs emptyWorld = []"
  by (simp_all add: emptyWorld_def)

lemma sample_resp:
  "rpush_resp sampleExt k v = None" "publish_resp sampleExt k v = None"
  "rpush_resp sampleExtCleanupDown k v = None"
  "publish_resp sampleExtCleanupDown k v = Some (Error ''connection refused'')"
  "rpush_resp sampleExtQueueDown k v = Some (Error ''connection refused'')"
  by (simp_all add: sampleExt_def sampleExtCleanupDown_def sampleExtQueueDown_def)

lemma sample_config:
  "PoppitQueue sampleConfig = ''poppit-commands''"
  "TimeBombChannel sampleConfig = ''timebomb-messages''"
  "TimeBombTTL sampleConfig = 86400"
  "TargetBranch sampleConfig = ''refs/heads/main''"
  "WorkDir sampleConfig = ''/tmp/vibemerge''"
  by (simp_all add: sampleConfig_def)

lemma showInt_7: "showInt 7 = ''7''"
  by (simp add: showInt_def showNat.simps digitChar_def)

lemma sample_triggered:
  "triggered sampleLib sampleConfig LogLevelInfo (Received ''reaction heart_eyes_cat'' sampleExtTools)
     = [JObj [(''repo'', JStr ''org/tools''),
              (''branch'', JStr ''refs/heads/main''),
              (''type'', JStr ''review_requested''),
              (''dir'', JStr ''/tmp/vibemerge''),
              (''commands'', JArr [JStr ''gh pr --repo org/tools ready 7'',
                                   JStr ''gh pr --repo org/tools merge 7 --squash''])]]"
  "triggered sampleLib sampleConfig LogLevelInfo (Received ''reaction heart_eyes_cat'' sampleExt)
     = [JObj [(''repo'', JStr ''org/repo''),
              (''branch'', JStr ''refs/heads/main''),
              (''type'', JStr ''review_requested''),
              (''dir'', JStr ''/tmp/vibemerge''),
              (''commands'', JArr [JStr ''gh pr --repo org/repo ready 42'',
                                   JStr ''gh pr --repo org/repo merge 42 --squash''])]]"
  "triggered sampleLib sampleConfig LogLevelInfo (Received ''reaction thumbsup'' sampleExt) = []"
proof -
  have d: "unmarshalReactionEvent sampleLib ''reaction heart_eyes_cat''
             = Inr (sampleEvent ''heart_eyes_cat'')"
    by (simp add: sampleLib_def)
  have f1: "fst (getMessageMetadata sampleLib sampleExtTools
                  (Item_Channel (Item (Event (sampleEvent ''heart_eyes_cat''))))
                  (Item_Ts (Item (Event (sampleEvent ''heart_eyes_cat'')))) emptyWorld)
             = Inr (Some (sampleMetadata\<lparr>PRNumber := 7, Repository := ''org/tools''\<rparr>))"
    by (simp add: getMessageMetadata_def slackGetConversationHistory_def sampleLib_def
      sampleExtTools_def sampleExt_def sampleMetadata_def)
  have f2: "fst (getMessageMetadata sampleLib sampleExt
                  (Item_Channel (Item (Event (sampleEvent ''heart_eyes_cat''))))
                  (Item_Ts (Item (Event (sampleEvent ''heart_eyes_cat'')))) emptyWorld)
             = Inr (Some sampleMetadata)"
    by (simp add: getMessageMetadata_def slackGetConversationHistory_def sampleLib_def
      sampleExt_def sampleMetadata_def)
  have rp: "rpush_resp sampleExtTools k v = None" for k v
    by (simp add: sampleExtTools_def sampleExt_def)
  show "triggered sampleLib sampleConfig LogLevelInfo (Received ''reaction heart_eyes_cat'' sampleExtTools)
     = [JObj [(''repo'', JStr ''org/tools''),
              (''branch'', JStr ''refs/heads/main''),
              (''type'', JStr ''review_requested''),
              (''dir'', JStr ''/tmp/vibemerge''),
              (''commands'', JArr [JStr ''gh pr --repo org/tools ready 7'',
                                   JStr ''gh pr --repo org/tools merge 7 --squash''])]]"
    using handle_valid(3) [OF d sample_match f1, of LogLevelInfo]
    by (simp add: rp sample_world sample_config sampleMetadata_def showInt_7)
  show "triggered sampleLib sampleConfig LogLevelInfo (Received ''reaction heart_eyes_cat'' sampleExt)
     = [JObj [(''repo'', JStr ''org/repo''),
              (''branch'', JStr ''refs/heads/main''),
              (''type'', JStr ''review_requested''),
              (''dir'', JStr ''/tmp/vibemerge''),
              (''commands'', JArr [JStr ''gh pr --repo org/repo ready 42'',
                                   JStr ''gh pr --repo org/repo merge 42 --squash''])]]"
    using handle_valid(3) [OF d sample_match f2, of LogLevelInfo]
    by (simp add: sample_resp sample_world sample_config sampleMetadata_def showInt_42)
  have d': "unmarshalReactionEvent sampleLib ''reaction thumbsup'' = Inr (sampleEvent ''thumbsup'')"
    by (simp add: sampleLib_def)
  have ne: "Reaction (Event (sampleEvent ''thumbsup'')) \<noteq> TargetEmoji sampleConfig"
    by (simp add: sampleEvent_def sampleConfig_def)
  show "triggered sampleLib sampleConfig LogLevelInfo (Received ''reaction thumbsup'' sampleExt) = []"
    by (simp add: handle_mismatch [OF d' ne] sample_world)
qed

lemma sample_loadConfig:
  "snd (loadConfig [''SLACK_BOT_TOKEN'' \<mapsto> ''xoxb-test'']) = Inr sampleConfig"
  "snd (loadConfig [''SLACK_BOT_TOKEN'' \<mapsto> ''xoxb-test'', ''REDIS_DB'' \<mapsto> ''5''])
     = Inr sampleConfig"
  by (simp_all add: loadConfig_snd Getenv_def getEnv_def getEnvInt_def sampleConfig_def)

subsection \<open>The work-queue entry\<close>

text \<open>
  C1. For a bus message that decodes to a reaction event whose reaction is the configured
  target emoji, and for which the metadata fetcher returns metadata, the pipeline sends
  exactly one \<open>RPUSH\<close>, to the configured queue, and its value is the object with the
  members \<open>repo\<close> (the metadata's repository), \<open>branch\<close> (the configured target
  branch, not the metadata's branch), \<open>type\<close> (the metadata's event action), \<open>dir\<close>
  (the configured working directory) and \<open>commands\<close> (the ready command, then the squash
  merge command, built from the repository and the pull-request number), in this order.
  When Redis accepts the request, the queue grows by this entry and no other list changes;
  when it does not, no list changes.
\<close>

theorem work_queue_entry_exact:
  assumes "unmarshalReactionEvent lib payload = Inr ev"
    and "Reaction (Event ev) = TargetEmoji config"
    and "fst (getMessageMetadata lib x (Item_Channel (Item (Event ev)))
               (Item_Ts (Item (Event ev))) w) = Inr (Some md)"
  shows "let entry = JObj [(''repo'', JStr (Repository md)),
                (''branch'', JStr (TargetBranch config)),
                (''type'', JStr (EventAction md)),
                (''dir'', JStr (WorkDir config)),
                (''commands'', JArr [
                   JStr (''gh pr --repo '' @ Repository md @ '' ready ''
                           @ showInt (sint (PRNumber md))),
                   JStr (''gh pr --repo '' @ Repository md @ '' merge ''
                           @ showInt (sint (PRNumber md)) @ '' --squash'')])];
             w' = snd (handleReactionMessage lib config cur x payload w)
         in pushes (calls w') = pushes (calls w) @ [(PoppitQueue config, entry)]
          \<and> lists w' =
              (if rpush_resp x (PoppitQueue config) entry = None
               then (lists w)(PoppitQueue config := lists w (PoppitQueue config) @ [entry])
               else lists w)"
  unfolding Let_def
  using handle_valid(2) [OF assms, of cur] handle_valid(3) [OF assms, of cur]
  by (simp add: pushes_append)

theorem work_queue_entry_exact_witness:
  "unmarshalReactionEvent sampleLib ''reaction heart_eyes_cat'' = Inr (sampleEvent ''heart_eyes_cat'')
   \<and> Reaction (Event (sampleEvent ''heart_eyes_cat'')) = TargetEmoji sampleConfig
   \<and> fst (getMessageMetadata sampleLib sampleExt ''C123456'' ''1766236581.981479'' emptyWorld)
       = Inr (Some sampleMetadata)
   \<and> pushes (calls (snd (handleReactionMessage sampleLib sampleConfig LogLevelInfo sampleExt
        ''reaction heart_eyes_cat'' emptyWorld))) =
       [(''poppit-commands'',
         JObj [(''repo'', JStr ''org/repo''),
               (''branch'', JStr ''refs/heads/main''),
               (''type'', JStr ''review_requested''),
               (''dir'', JStr ''/tmp/vibemerge''),
               (''commands'', JArr [JStr ''gh pr --repo org/repo ready 42'',
                                    JStr ''gh pr --repo org/repo merge 42 --squash''])])]
   \<and> lists (snd (handleReactionMessage sampleLib sampleConfig LogLevelInfo sampleExt
        ''reaction heart_eyes_cat'' emptyWorld)) ''poppit-commands'' =
       [JObj [(''repo'', JStr ''org/repo''),
               (''branch'', JStr ''refs/heads/main''),
               (''type'', JStr ''review_requested''),
               (''dir'', JStr ''/tmp/vibemerge''),
               (''commands'', JArr [JStr ''gh pr --repo org/repo ready 42'',
                                    JStr ''gh pr --repo org/repo merge 42 --squash''])]]"
proof -
  have h1: "unmarshalReactionEvent sampleLib ''reaction heart_eyes_cat''
              = Inr (sampleEvent ''heart_eyes_cat'')"
    by (simp add: sampleLib_def)
  have h2: "Reaction (Event (sampleEvent ''heart_eyes_cat'')) = TargetEmoji sampleConfig"
    by (simp add: sampleEvent_def sampleConfig_def)
  have h3: "fst (getMessageMetadata sampleLib sampleExt
                   (Item_Channel (Item (Event (sampleEvent ''heart_eyes_cat''))))
                   (Item_Ts (Item (Event (sampleEvent ''heart_eyes_cat'')))) emptyWorld)
              = Inr (Some sampleMetadata)"
    using sample_fetched by (simp add: sampleEvent_def)
  have rp: "rpush_resp sampleExt k v = None" for k v by (simp add: sampleExt_def)
  have e: "lists emptyWorld k = []" "calls emptyWorld = []" for k by (simp_all add: emptyWorld_def)
  show ?thesis
    using work_queue_entry_exact [OF h1 h2 h3, of LogLevelInfo] h1 h2 sample_fetched
    by (simp add: Let_def rp e showInt_42 sampleMetadata_def sampleConfig_def)
qed


subsection \<open>Messages that are ignored\<close>

text \<open>
  C2. A bus message that does not decode into a reaction event, or whose decoded reaction
  differs from the configured target emoji, leaves the Redis lists and the delivered
  messages as they were and causes no request at all, so neither a work-queue entry nor a
  cleanup request; and the dispatch loop goes on with the remaining turns from a world that
  differs from the one before only in its log.
\<close>

theorem ignored_message_no_effect:
  assumes "(\<exists>e. unmarshalReactionEvent lib payload = Inl e)
         \<or> (\<exists>ev. unmarshalReactionEvent lib payload = Inr ev
                \<and> Reaction (Event ev) \<noteq> TargetEmoji config)"
  shows "lists (snd (handleReactionMessage lib config cur x payload w)) = lists w
       \<and> published (snd (handleReactionMessage lib config cur x payload w)) = published w
       \<and> calls (snd (handleReactionMessage lib config cur x payload w)) = calls w
       \<and> (\<exists>ls. dispatch lib config cur (Received payload x # rest) w =
                 dispatch lib config cur rest (w\<lparr>logs := logs w @ ls\<rparr>))"
  using assms
proof (elim disjE exE conjE)
  fix e
  assume dec: "unmarshalReactionEvent lib payload = Inl e"
  have h: "handleReactionMessage lib config cur x payload w =
             (Some (Wrap ''failed to unmarshal reaction event'' e), w)"
    by (rule handle_decode_error [OF dec])
  obtain ls where "logError cur ''Error handling reaction message: %v''
      [errorString (Wrap ''failed to unmarshal reaction event'' e)] w = w\<lparr>logs := logs w @ ls\<rparr>"
    using log_only_logs(4) by blast
  then show ?thesis by (simp add: h) metis
next
  fix ev
  assume dec: "unmarshalReactionEvent lib payload = Inr ev"
    and ne: "Reaction (Event ev) \<noteq> TargetEmoji config"
  have h: "handleReactionMessage lib config cur x payload w =
             (None, logDebug cur ''Ignoring reaction: %s'' [Reaction (Event ev)] w)"
    by (rule handle_mismatch [OF dec ne])
  obtain ls where "logDebug cur ''Ignoring reaction: %s'' [Reaction (Event ev)] w
      = w\<lparr>logs := logs w @ ls\<rparr>"
    using log_only_logs(1) by blast
  then show ?thesis by (simp add: h) metis
qed

theorem ignored_message_no_effect_witness:
  "unmarshalReactionEvent sampleLib ''not json'' = Inl (Error ''invalid character'')
   \<and> unmarshalReactionEvent sampleLib ''reaction thumbsup'' = Inr (sampleEvent ''thumbsup'')
   \<and> Reaction (Event (sampleEvent ''thumbsup'')) \<noteq> TargetEmoji sampleConfig
   \<and> calls (snd (handleReactionMessage sampleLib sampleConfig LogLevelInfo sampleExt
                   ''not json'' emptyWorld)) = []
   \<and> calls (snd (handleReactionMessage sampleLib sampleConfig LogLevelInfo sampleExt
                   ''reaction thumbsup'' emptyWorld)) = []
   \<and> (\<exists>ls. dispatch sampleLib sampleConfig LogLevelInfo
               [Received ''not json'' sampleExt, Received ''reaction thumbsup'' sampleExt]
               emptyWorld = emptyWorld\<lparr>logs := ls\<rparr>)"
proof -
  have h1: "unmarshalReactionEvent sampleLib ''not json'' = Inl (Error ''invalid character'')"
    by (simp add: sampleLib_def)
  have h2: "unmarshalReactionEvent sampleLib ''reaction thumbsup'' = Inr (sampleEvent ''thumbsup'')"
    by (simp add: sampleLib_def)
  have h3: "Reaction (Event (sampleEvent ''thumbsup'')) \<noteq> TargetEmoji sampleConfig"
    by (simp add: sampleEvent_def sampleConfig_def)
  have a: "(\<exists>e. unmarshalReactionEvent sampleLib ''not json'' = Inl e)
         \<or> (\<exists>ev. unmarshalReactionEvent sampleLib ''not json'' = Inr ev
                \<and> Reaction (Event ev) \<noteq> TargetEmoji sampleConfig)"
    using h1 by blast
  have b: "(\<exists>e. unmarshalReactionEvent sampleLib ''reaction thumbsup'' = Inl e)
         \<or> (\<exists>ev. unmarshalReactionEvent sampleLib ''reaction thumbsup'' = Inr ev
                \<and> Reaction (Event ev) \<noteq> TargetEmoji sampleConfig)"
    using h2 h3 by blast
  have e: "calls emptyWorld = []" "logs emptyWorld = []" by (simp_all add: emptyWorld_def)
  note A = ignored_message_no_effect [OF a, of LogLevelInfo sampleExt emptyWorld
      "[Received ''reaction thumbsup'' sampleExt]"]
  from A obtain ls1 where d1: "dispatch sampleLib sampleConfig LogLevelInfo
      [Received ''not json'' sampleExt, Received ''reaction thumbsup'' sampleExt] emptyWorld =
      dispatch sampleLib sampleConfig LogLevelInfo [Received ''reaction thumbsup'' sampleExt]
        (emptyWorld\<lparr>logs := logs emptyWorld @ ls1\<rparr>)"
    by blast
  note B = ignored_message_no_effect [OF b, of LogLevelInfo sampleExt,
      where rest = "[]"]
  from B [of "emptyWorld\<lparr>logs := logs emptyWorld @ ls1\<rparr>"]
  obtain ls2 where d2: "dispatch sampleLib sampleConfig LogLevelInfo
      [Received ''reaction thumbsup'' sampleExt] (emptyWorld\<lparr>logs := logs emptyWorld @ ls1\<rparr>) =
      emptyWorld\<lparr>logs := ls1 @ ls2\<rparr>"
    by (auto simp: e)
  have "\<exists>ls. dispatch sampleLib sampleConfig LogLevelInfo
               [Received ''not json'' sampleExt, Received ''reaction thumbsup'' sampleExt]
               emptyWorld = emptyWorld\<lparr>logs := ls\<rparr>"
    using d1 d2 by auto
  moreover have "calls (snd (handleReactionMessage sampleLib sampleConfig LogLevelInfo sampleExt
                   ''not json'' emptyWorld)) = []"
    using A by (simp add: e)
  moreover have "calls (snd (handleReactionMessage sampleLib sampleConfig LogLevelInfo sampleExt
                   ''reaction thumbsup'' emptyWorld)) = []"
    using ignored_message_no_effect [OF b, of LogLevelInfo sampleExt emptyWorld] by (simp add: e)
  ultimately show ?thesis using h1 h2 h3 by simp
qed

subsection \<open>The outcomes of the metadata fetcher\<close>

text \<open>
  C3. \<open>getMessageMetadata\<close> returns the parsed metadata exactly when Slack answers with
  at least one message, the first message carries metadata (its event type is not empty,
  which is how the program tells), the payload goes through encoding/json into a
  \<open>PRMetadata\<close>, and that has a non-zero \<open>pr_number\<close> and a non-empty \<open>repository\<close>.
  It returns "no metadata" exactly when there is a first message that carries no metadata,
  or whose payload decodes to a \<open>PRMetadata\<close> with a zero \<open>pr_number\<close> or an empty
  \<open>repository\<close>. It returns an error exactly when the call to Slack fails, when no message
  is found, or when the metadata is there and its payload does not go through encoding/json.
\<close>

theorem getMessageMetadata_outcomes:
  "let reply = history_resp x \<lparr> ChannelID = channel, Latest = timestamp, Limit = 1,
                                  Inclusive = True, IncludeAllMetadata = True \<rparr>;
       result = fst (getMessageMetadata lib x channel timestamp w)
   in ((result = Inr (Some md)) =
         (\<exists>message others text.
            reply = Inr (message # others)
          \<and> EventType (Metadata message) \<noteq> []
          \<and> marshalEventPayload lib (EventPayload (Metadata message)) = Inr text
          \<and> unmarshalPRMetadata lib text = Inr md
          \<and> PRNumber md \<noteq> 0 \<and> Repository md \<noteq> []))
    \<and> ((result = Inr None) =
         (\<exists>message others.
            reply = Inr (message # others)
          \<and> (EventType (Metadata message) = []
             \<or> (\<exists>text md'.
                   marshalEventPayload lib (EventPayload (Metadata message)) = Inr text
                 \<and> unmarshalPRMetadata lib text = Inr md'
                 \<and> (PRNumber md' = 0 \<or> Repository md' = [])))))
    \<and> ((\<exists>err. result = Inl err) =
         ((\<exists>err. reply = Inl err)
        \<or> reply = Inr []
        \<or> (\<exists>message others.
              reply = Inr (message # others)
            \<and> EventType (Metadata message) \<noteq> []
            \<and> ((\<exists>err. marshalEventPayload lib (EventPayload (Metadata message)) = Inl err)
               \<or> (\<exists>text err.
                     marshalEventPayload lib (EventPayload (Metadata message)) = Inr text
                   \<and> unmarshalPRMetadata lib text = Inl err)))))"
proof -
  define reply where "reply = history_resp x \<lparr> ChannelID = channel, Latest = timestamp,
     Limit = 1, Inclusive = True, IncludeAllMetadata = True \<rparr>"
  define result where "result = fst (getMessageMetadata lib x channel timestamp w)"
  have r: "result =
     (case reply of
        Inl err \<Rightarrow> Inl (Wrap ''failed to get conversation history'' err)
      | Inr [] \<Rightarrow> Inl (Error (''no message found at timestamp '' @ timestamp))
      | Inr (message # _) \<Rightarrow>
          if EventType (Metadata message) = [] then Inr None
          else (case marshalEventPayload lib (EventPayload (Metadata message)) of
                  Inl err \<Rightarrow> Inl (Wrap ''failed to marshal metadata'' err)
                | Inr text \<Rightarrow>
                    (case unmarshalPRMetadata lib text of
                       Inl err \<Rightarrow> Inl (Wrap ''failed to unmarshal PR metadata'' err)
                     | Inr m \<Rightarrow> if PRNumber m = 0 \<or> Repository m = [] then Inr None
                                else Inr (Some m))))"
    unfolding result_def reply_def
    by (simp add: getMessageMetadata_def slackGetConversationHistory_def Let_def
        split: sum.splits list.splits)
  have a: "(result = Inr (Some md)) =
         (\<exists>message others text.
            reply = Inr (message # others)
          \<and> EventType (Metadata message) \<noteq> []
          \<and> marshalEventPayload lib (EventPayload (Metadata message)) = Inr text
          \<and> unmarshalPRMetadata lib text = Inr md
          \<and> PRNumber md \<noteq> 0 \<and> Repository md \<noteq> [])"
    unfolding r by (auto split: sum.splits list.splits if_splits)
  have b: "(result = Inr None) =
         (\<exists>message others.
            reply = Inr (message # others)
          \<and> (EventType (Metadata message) = []
             \<or> (\<exists>text md'.
                   marshalEventPayload lib (EventPayload (Metadata message)) = Inr text
                 \<and> unmarshalPRMetadata lib text = Inr md'
                 \<and> (PRNumber md' = 0 \<or> Repository md' = []))))"
    unfolding r by (auto split: sum.splits list.splits if_splits)
  have c: "(\<exists>err. result = Inl err) =
         ((\<exists>err. reply = Inl err)
        \<or> reply = Inr []
        \<or> (\<exists>message others.
              reply = Inr (message # others)
            \<and> EventType (Metadata message) \<noteq> []
            \<and> ((\<exists>err. marshalEventPayload lib (EventPayload (Metadata message)) = Inl err)
               \<or> (\<exists>text err.
                     marshalEventPayload lib (EventPayload (Metadata message)) = Inr text
                   \<and> unmarshalPRMetadata lib text = Inl err))))"
    unfolding r by (auto split: sum.splits list.splits if_splits)
  show ?thesis
    unfolding Let_def reply_def [symmetric] result_def [symmetric]
    using a b c by blast
qed


theorem getMessageMetadata_outcomes_witness:
  "fst (getMessageMetadata sampleLib sampleExt ''C123456'' ''1766236581.981479'' emptyWorld)
     = Inr (Some sampleMetadata)
   \<and> PRNumber sampleMetadata \<noteq> 0 \<and> Repository sampleMetadata \<noteq> []"
proof -
  have nz: "PRNumber sampleMetadata \<noteq> 0 \<and> Repository sampleMetadata \<noteq> []"
    by (simp add: sampleMetadata_def)
  have ex: "\<exists>message others text.
          history_resp sampleExt \<lparr> ChannelID = ''C123456'', Latest = ''1766236581.981479'',
            Limit = 1, Inclusive = True, IncludeAllMetadata = True \<rparr> = Inr (message # others)
        \<and> EventType (Metadata message) \<noteq> []
        \<and> marshalEventPayload sampleLib (EventPayload (Metadata message)) = Inr text
        \<and> unmarshalPRMetadata sampleLib text = Inr sampleMetadata
        \<and> PRNumber sampleMetadata \<noteq> 0 \<and> Repository sampleMetadata \<noteq> []"
    using nz by (simp add: sampleExt_def sampleLib_def)
  have "(fst (getMessageMetadata sampleLib sampleExt ''C123456'' ''1766236581.981479'' emptyWorld)
          = Inr (Some sampleMetadata)) =
        (\<exists>message others text.
          history_resp sampleExt \<lparr> ChannelID = ''C123456'', Latest = ''1766236581.981479'',
            Limit = 1, Inclusive = True, IncludeAllMetadata = True \<rparr> = Inr (message # others)
        \<and> EventType (Metadata message) \<noteq> []
        \<and> marshalEventPayload sampleLib (EventPayload (Metadata message)) = Inr text
        \<and> unmarshalPRMetadata sampleLib text = Inr sampleMetadata
        \<and> PRNumber sampleMetadata \<noteq> 0 \<and> Repository sampleMetadata \<noteq> [])"
    using getMessageMetadata_outcomes [of sampleExt "''C123456''" "''1766236581.981479''"
      sampleLib emptyWorld sampleMetadata]
    unfolding Let_def by (rule conjunct1)
  with ex nz show ?thesis by blast
qed

subsection \<open>The cleanup request\<close>

text \<open>
  C5. When handling a bus message has made the work queue grow, the message decoded to a
  reaction event and the pipeline has sent exactly one \<open>PUBLISH\<close>: to the configured
  cleanup channel, with the channel and the timestamp of that reaction event and the
  configured time to live.
\<close>

theorem cleanup_request_once:
  assumes "lists (snd (handleReactionMessage lib config cur x payload w)) (PoppitQueue config)
             \<noteq> lists w (PoppitQueue config)"
  shows "\<exists>ev. unmarshalReactionEvent lib payload = Inr ev
             \<and> cleanups (calls (snd (handleReactionMessage lib config cur x payload w))) =
                 cleanups (calls w) @
                 [(TimeBombChannel config,
                   JObj [(''channel'', JStr (Item_Channel (Item (Event ev)))),
                         (''ts'', JStr (Item_Ts (Item (Event ev)))),
                         (''ttl'', JNum (sint (TimeBombTTL config)))])]"
proof -
  from assms have "lists (snd (handleReactionMessage lib config cur x payload w)) \<noteq> lists w"
    by auto
  then obtain ev md where h:
    "unmarshalReactionEvent lib payload = Inr ev"
    "Reaction (Event ev) = TargetEmoji config"
    "fst (getMessageMetadata lib x (Item_Channel (Item (Event ev)))
               (Item_Ts (Item (Event ev))) w) = Inr (Some md)"
    and rp: "rpush_resp x (PoppitQueue config)
           (JObj [(''repo'', JStr (Repository md)),
                (''branch'', JStr (TargetBranch config)),
                (''type'', JStr (EventAction md)),
                (''dir'', JStr (WorkDir config)),
                (''commands'', JArr [
                   JStr (''gh pr --repo '' @ Repository md @ '' ready ''
                           @ showInt (sint (PRNumber md))),
                   JStr (''gh pr --repo '' @ Repository md @ '' merge ''
                           @ showInt (sint (PRNumber md)) @ '' --squash'')])]) = None"
    by (rule handle_queue_changed)
  from handle_valid(2) [OF h, of cur] rp
  have "cleanups (calls (snd (handleReactionMessage lib config cur x payload w))) =
                 cleanups (calls w) @
                 [(TimeBombChannel config,
                   JObj [(''channel'', JStr (Item_Channel (Item (Event ev)))),
                         (''ts'', JStr (Item_Ts (Item (Event ev)))),
                         (''ttl'', JNum (sint (TimeBombTTL config)))])]"
    by (simp add: cleanups_append)
  with h(1) show ?thesis by blast
qed

theorem cleanup_request_once_witness:
  "lists (snd (handleReactionMessage sampleLib sampleConfig LogLevelInfo sampleExt
        ''reaction heart_eyes_cat'' emptyWorld)) (PoppitQueue sampleConfig)
     \<noteq> lists emptyWorld (PoppitQueue sampleConfig)
   \<and> cleanups (calls (snd (handleReactionMessage sampleLib sampleConfig LogLevelInfo sampleExt
        ''reaction heart_eyes_cat'' emptyWorld))) =
       [(''timebomb-messages'',
         JObj [(''channel'', JStr ''C123456''), (''ts'', JStr ''1766236581.981479''),
               (''ttl'', JNum 86400)])]"
proof -
  have f: "fst (getMessageMetadata sampleLib sampleExt
                  (Item_Channel (Item (Event (sampleEvent ''heart_eyes_cat''))))
                  (Item_Ts (Item (Event (sampleEvent ''heart_eyes_cat'')))) emptyWorld)
             = Inr (Some sampleMetadata)"
    by (rule sample_fetched_any) simp
  have h: "lists (snd (handleReactionMessage sampleLib sampleConfig LogLevelInfo sampleExt
        ''reaction heart_eyes_cat'' emptyWorld)) (PoppitQueue sampleConfig)
     \<noteq> lists emptyWorld (PoppitQueue sampleConfig)"
    using handle_valid(3) [OF sample_decode sample_match f, of LogLevelInfo]
    by (simp add: sample_resp sample_world)
  from cleanup_request_once [OF h] sample_decode
  show ?thesis using h by (simp add: sample_world sample_item sample_config)
qed


text \<open>
  C4. When handling a bus message has made the work queue grow and Redis then refuses the
  cleanup request, the pipeline still returns no error: the queue holds the new entry,
  nothing is delivered on the cleanup channel, the dispatch loop goes on without logging an
  error for this message, and the last line the pipeline logs, if warnings are logged at
  all, is the warning that the TTL could not be set.
\<close>

theorem cleanup_failure_not_fatal:
  assumes dec: "unmarshalReactionEvent lib payload = Inr ev"
    and pushed: "lists (snd (handleReactionMessage lib config cur x payload w)) (PoppitQueue config)
                   \<noteq> lists w (PoppitQueue config)"
    and failed: "publish_resp x (TimeBombChannel config)
                   (JObj [(''channel'', JStr (Item_Channel (Item (Event ev)))),
                          (''ts'', JStr (Item_Ts (Item (Event ev)))),
                          (''ttl'', JNum (sint (TimeBombTTL config)))]) = Some err"
  shows "fst (handleReactionMessage lib config cur x payload w) = None
       \<and> (\<exists>entry. lists (snd (handleReactionMessage lib config cur x payload w)) =
                    (lists w)(PoppitQueue config := lists w (PoppitQueue config) @ [entry]))
       \<and> published (snd (handleReactionMessage lib config cur x payload w)) = published w
       \<and> dispatch lib config cur (Received payload x # rest) w =
           dispatch lib config cur rest (snd (handleReactionMessage lib config cur x payload w))
       \<and> (levelValue cur \<le> levelValue LogLevelWarning \<longrightarrow>
            last (logs (snd (handleReactionMessage lib config cur x payload w))) =
              (''[WARNING] Failed to set TTL on message: %v'',
               [''failed to publish to '' @ TimeBombChannel config @ '': '' @ errorString err]))"
proof -
  let ?r = "handleReactionMessage lib config cur x payload w"
  from pushed have "lists (snd ?r) \<noteq> lists w" by auto
  then obtain ev' md where h':
    "unmarshalReactionEvent lib payload = Inr ev'"
    "Reaction (Event ev') = TargetEmoji config"
    "fst (getMessageMetadata lib x (Item_Channel (Item (Event ev')))
               (Item_Ts (Item (Event ev'))) w) = Inr (Some md)"
    and rp': "rpush_resp x (PoppitQueue config)
           (JObj [(''repo'', JStr (Repository md)),
                (''branch'', JStr (TargetBranch config)),
                (''type'', JStr (EventAction md)),
                (''dir'', JStr (WorkDir config)),
                (''commands'', JArr [
                   JStr (''gh pr --repo '' @ Repository md @ '' ready ''
                           @ showInt (sint (PRNumber md))),
                   JStr (''gh pr --repo '' @ Repository md @ '' merge ''
                           @ showInt (sint (PRNumber md)) @ '' --squash'')])]) = None"
    by (rule handle_queue_changed)
  from h'(1) dec have e: "ev' = ev" by simp
  note h = h' [unfolded e] and rp = rp' [unfolded e]
  have r1: "fst ?r = None"
    using handle_valid(1) [OF h, of cur] rp by simp
  have r2: "\<exists>entry. lists (snd ?r) =
                    (lists w)(PoppitQueue config := lists w (PoppitQueue config) @ [entry])"
    using handle_valid(3) [OF h, of cur] rp by auto
  have r3: "published (snd ?r) = published w"
    using handle_valid(4) [OF h, of cur] failed by simp
  have r4: "dispatch lib config cur (Received payload x # rest) w =
           dispatch lib config cur rest (snd ?r)"
    using r1 by (cases ?r) simp
  obtain w6 where w6: "snd ?r = logWarning cur ''Failed to set TTL on message: %v''
             [errorString (Wrap (''failed to publish to '' @ TimeBombChannel config) err)] w6"
    using handle_publish_failed [OF h rp failed, of cur] by blast
  have r5: "levelValue cur \<le> levelValue LogLevelWarning \<longrightarrow>
            last (logs (snd ?r)) =
              (''[WARNING] Failed to set TTL on message: %v'',
               [''failed to publish to '' @ TimeBombChannel config @ '': '' @ errorString err])"
    unfolding w6 by (simp add: logWarning_def)
  from r1 r2 r3 r4 r5 show ?thesis by blast
qed

theorem cleanup_failure_not_fatal_witness:
  "unmarshalReactionEvent sampleLib ''reaction heart_eyes_cat'' = Inr (sampleEvent ''heart_eyes_cat'')
   \<and> lists (snd (handleReactionMessage sampleLib sampleConfig LogLevelInfo sampleExtCleanupDown
        ''reaction heart_eyes_cat'' emptyWorld)) (PoppitQueue sampleConfig)
       \<noteq> lists emptyWorld (PoppitQueue sampleConfig)
   \<and> publish_resp sampleExtCleanupDown ''timebomb-messages''
         (JObj [(''channel'', JStr ''C123456''), (''ts'', JStr ''1766236581.981479''),
                (''ttl'', JNum 86400)]) = Some (Error ''connection refused'')
   \<and> fst (handleReactionMessage sampleLib sampleConfig LogLevelInfo sampleExtCleanupDown
        ''reaction heart_eyes_cat'' emptyWorld) = None
   \<and> published (snd (handleReactionMessage sampleLib sampleConfig LogLevelInfo
        sampleExtCleanupDown ''reaction heart_eyes_cat'' emptyWorld)) = []
   \<and> last (logs (snd (handleReactionMessage sampleLib sampleConfig LogLevelInfo
        sampleExtCleanupDown ''reaction heart_eyes_cat'' emptyWorld))) =
       (''[WARNING] Failed to set TTL on message: %v'',
        [''failed to publish to timebomb-messages: connection refused''])"
proof -
  have f: "fst (getMessageMetadata sampleLib sampleExtCleanupDown
                  (Item_Channel (Item (Event (sampleEvent ''heart_eyes_cat''))))
                  (Item_Ts (Item (Event (sampleEvent ''heart_eyes_cat'')))) emptyWorld)
             = Inr (Some sampleMetadata)"
    by (rule sample_fetched_any) (rule sample_history)
  have h: "lists (snd (handleReactionMessage sampleLib sampleConfig LogLevelInfo
        sampleExtCleanupDown ''reaction heart_eyes_cat'' emptyWorld)) (PoppitQueue sampleConfig)
     \<noteq> lists emptyWorld (PoppitQueue sampleConfig)"
    using handle_valid(3) [OF sample_decode sample_match f, of LogLevelInfo]
    by (simp add: sample_resp sample_world)
  have p: "publish_resp sampleExtCleanupDown (TimeBombChannel sampleConfig)
         (JObj [(''channel'', JStr (Item_Channel (Item (Event (sampleEvent ''heart_eyes_cat''))))),
                (''ts'', JStr (Item_Ts (Item (Event (sampleEvent ''heart_eyes_cat''))))),
                (''ttl'', JNum (sint (TimeBombTTL sampleConfig)))]) = Some (Error ''connection refused'')"
    by (rule sample_resp)
  from cleanup_failure_not_fatal [OF sample_decode h p]
  show ?thesis using h sample_decode
    by (simp add: sample_world sample_config sample_resp)
qed

text \<open>
  C9. If handling a bus message attempts a cleanup request (or delivers one), then no
  earlier stage abandoned the message: it decoded to a reaction event with the target
  emoji, the fetcher returned metadata, the payload was encoded, Redis accepted the
  \<open>RPUSH\<close> and the queue holds the entry; and the \<open>PUBLISH\<close> is the last of the
  three requests, right after that \<open>RPUSH\<close>. So a message abandoned at any earlier stage
  attempts no cleanup request.
\<close>

theorem cleanup_only_after_push:
  assumes "cleanups (calls (snd (handleReactionMessage lib config cur x payload w)))
             \<noteq> cleanups (calls w)
         \<or> published (snd (handleReactionMessage lib config cur x payload w)) \<noteq> published w"
  shows "\<exists>ev md entry request.
           unmarshalReactionEvent lib payload = Inr ev
         \<and> Reaction (Event ev) = TargetEmoji config
         \<and> fst (getMessageMetadata lib x (Item_Channel (Item (Event ev)))
                  (Item_Ts (Item (Event ev))) w) = Inr (Some md)
         \<and> marshalPoppitPayload \<lparr>
               Repo = Repository md, PoppitPayload_Branch = TargetBranch config,
               PoppitPayload_Type = EventAction md, Dir = WorkDir config,
               Commands = [''gh pr --repo '' @ Repository md @ '' ready ''
                             @ showInt (sint (PRNumber md)),
                           ''gh pr --repo '' @ Repository md @ '' merge ''
                             @ showInt (sint (PRNumber md)) @ '' --squash''] \<rparr> = Inr entry
         \<and> rpush_resp x (PoppitQueue config) entry = None
         \<and> lists (snd (handleReactionMessage lib config cur x payload w)) =
             (lists w)(PoppitQueue config := lists w (PoppitQueue config) @ [entry])
         \<and> calls (snd (handleReactionMessage lib config cur x payload w)) =
             calls w @
             [GetConversationHistory
                \<lparr> ChannelID = Item_Channel (Item (Event ev)), Latest = Item_Ts (Item (Event ev)),
                  Limit = 1, Inclusive = True, IncludeAllMetadata = True \<rparr>,
              RPush (PoppitQueue config) entry,
              Publish (TimeBombChannel config) request]"
proof -
  from assms obtain ev md where h:
    "unmarshalReactionEvent lib payload = Inr ev"
    "Reaction (Event ev) = TargetEmoji config"
    "fst (getMessageMetadata lib x (Item_Channel (Item (Event ev)))
               (Item_Ts (Item (Event ev))) w) = Inr (Some md)"
    and rp: "rpush_resp x (PoppitQueue config)
           (JObj [(''repo'', JStr (Repository md)),
                (''branch'', JStr (TargetBranch config)),
                (''type'', JStr (EventAction md)),
                (''dir'', JStr (WorkDir config)),
                (''commands'', JArr [
                   JStr (''gh pr --repo '' @ Repository md @ '' ready ''
                           @ showInt (sint (PRNumber md))),
                   JStr (''gh pr --repo '' @ Repository md @ '' merge ''
                           @ showInt (sint (PRNumber md)) @ '' --squash'')])]) = None"
    by (rule handle_cleanup_attempted)
  from handle_valid(2,3) [OF h, of cur] rp h
  show ?thesis
    by (simp add: marshalPoppitPayload_def)
qed

theorem cleanup_only_after_push_witness:
  "cleanups (calls (snd (handleReactionMessage sampleLib sampleConfig LogLevelInfo sampleExt
        ''reaction heart_eyes_cat'' emptyWorld))) \<noteq> cleanups (calls emptyWorld)
   \<and> (\<exists>entry. rpush_resp sampleExt ''poppit-commands'' entry = None
        \<and> lists (snd (handleReactionMessage sampleLib sampleConfig LogLevelInfo sampleExt
              ''reaction heart_eyes_cat'' emptyWorld)) ''poppit-commands'' = [entry])
   \<and> cleanups (calls (snd (handleReactionMessage sampleLib sampleConfig LogLevelInfo
        sampleExtQueueDown ''reaction heart_eyes_cat'' emptyWorld))) = []"
proof -
  have f: "fst (getMessageMetadata sampleLib sampleExt
                  (Item_Channel (Item (Event (sampleEvent ''heart_eyes_cat''))))
                  (Item_Ts (Item (Event (sampleEvent ''heart_eyes_cat'')))) emptyWorld)
             = Inr (Some sampleMetadata)"
    by (rule sample_fetched_any) simp
  have a: "cleanups (calls (snd (handleReactionMessage sampleLib sampleConfig LogLevelInfo
        sampleExt ''reaction heart_eyes_cat'' emptyWorld))) \<noteq> cleanups (calls emptyWorld)"
    using handle_valid(2) [OF sample_decode sample_match f, of LogLevelInfo]
    by (simp add: sample_resp sample_world)
  then have a': "cleanups (calls (snd (handleReactionMessage sampleLib sampleConfig LogLevelInfo
        sampleExt ''reaction heart_eyes_cat'' emptyWorld))) \<noteq> cleanups (calls emptyWorld)
     \<or> published (snd (handleReactionMessage sampleLib sampleConfig LogLevelInfo
        sampleExt ''reaction heart_eyes_cat'' emptyWorld)) \<noteq> published emptyWorld"
    by (rule disjI1)
  from cleanup_only_after_push [OF a']
  have b: "\<exists>entry. rpush_resp sampleExt ''poppit-commands'' entry = None
        \<and> lists (snd (handleReactionMessage sampleLib sampleConfig LogLevelInfo sampleExt
              ''reaction heart_eyes_cat'' emptyWorld)) ''poppit-commands'' = [entry]"
    by (auto simp: sample_config sample_world)
  have c: "cleanups (calls (snd (handleReactionMessage sampleLib sampleConfig LogLevelInfo
        sampleExtQueueDown ''reaction heart_eyes_cat'' emptyWorld))) = []"
  proof (rule ccontr)
    assume n: "cleanups (calls (snd (handleReactionMessage sampleLib sampleConfig LogLevelInfo
        sampleExtQueueDown ''reaction heart_eyes_cat'' emptyWorld))) \<noteq> []"
    then have "cleanups (calls (snd (handleReactionMessage sampleLib sampleConfig LogLevelInfo
        sampleExtQueueDown ''reaction heart_eyes_cat'' emptyWorld))) \<noteq> cleanups (calls emptyWorld)
     \<or> published (snd (handleReactionMessage sampleLib sampleConfig LogLevelInfo
        sampleExtQueueDown ''reaction heart_eyes_cat'' emptyWorld)) \<noteq> published emptyWorld"
      by (simp add: sample_world)
    from cleanup_only_after_push [OF this] show False
      by (simp add: sample_resp)
  qed
  from a b c show ?thesis by blast
qed

subsection \<open>Order of the work queue\<close>

text \<open>
  C6. After the dispatch loop has taken a finite sequence of turns, the work queue is what
  it was before, followed by the entries the turns trigger, turn by turn in the order of
  delivery; each turn triggers at most one entry.
\<close>

theorem work_queue_order:
  "lists (processReactions lib config cur turns w) (PoppitQueue config) =
     lists w (PoppitQueue config) @ concat (map (triggered lib config cur) turns)
   \<and> (\<forall>t \<in> set turns. length (triggered lib config cur t) \<le> 1)"
proof
  show "lists (processReactions lib config cur turns w) (PoppitQueue config) =
     lists w (PoppitQueue config) @ concat (map (triggered lib config cur) turns)"
    by (simp add: processReactions_def dispatch_lists)
  show "\<forall>t \<in> set turns. length (triggered lib config cur t) \<le> 1"
    using triggered_length by blast
qed

theorem work_queue_order_witness:
  "lists (processReactions sampleLib sampleConfig LogLevelInfo
            [Received ''reaction heart_eyes_cat'' sampleExtTools,
             Received ''reaction thumbsup'' sampleExt,
             ReceiveError (Error ''i/o timeout''),
             Received ''reaction heart_eyes_cat'' sampleExt] emptyWorld) ''poppit-commands'' =
     [JObj [(''repo'', JStr ''org/tools''),
            (''branch'', JStr ''refs/heads/main''),
            (''type'', JStr ''review_requested''),
            (''dir'', JStr ''/tmp/vibemerge''),
            (''commands'', JArr [JStr ''gh pr --repo org/tools ready 7'',
                                 JStr ''gh pr --repo org/tools merge 7 --squash''])],
      JObj [(''repo'', JStr ''org/repo''),
            (''branch'', JStr ''refs/heads/main''),
            (''type'', JStr ''review_requested''),
            (''dir'', JStr ''/tmp/vibemerge''),
            (''commands'', JArr [JStr ''gh pr --repo org/repo ready 42'',
                                 JStr ''gh pr --repo org/repo merge 42 --squash''])]]"
  using work_queue_order [of sampleLib sampleConfig LogLevelInfo
            "[Received ''reaction heart_eyes_cat'' sampleExtTools,
             Received ''reaction thumbsup'' sampleExt,
             ReceiveError (Error ''i/o timeout''),
             Received ''reaction heart_eyes_cat'' sampleExt]" emptyWorld]
  by (simp add: sample_triggered sample_world sample_config del: triggered.simps(2))


subsection \<open>Configuration and startup\<close>

text \<open>
  C7. When \<open>SLACK_BOT_TOKEN\<close> is not set, \<open>main\<close> exits through \<open>log.Fatal\<close> while
  loading the configuration and leaves the world as it found it but for the log: no Redis
  client has been created, no \<open>PING\<close> sent and no subscription made. \<open>loadConfig\<close> is
  fatal only when the token reads as empty; whenever the token is set to a non-empty value,
  whatever else is or is not set, the configuration loads and \<open>main\<close> goes on to create
  the client and check the connection.
\<close>

theorem missing_token_fatal:
  "(env ''SLACK_BOT_TOKEN'' = None \<longrightarrow>
      (\<exists>ls. main lib env ping_resp turns w =
         (Some (''SLACK_BOT_TOKEN environment variable is required'', []),
          w\<lparr>logs := logs w @ ls\<rparr>)))
   \<and> ((\<exists>fatal. snd (loadConfig env) = Inl fatal) \<longrightarrow> Getenv env ''SLACK_BOT_TOKEN'' = [])
   \<and> (Getenv env ''SLACK_BOT_TOKEN'' \<noteq> [] \<longrightarrow>
        (\<exists>config more. snd (loadConfig env) = Inr config
           \<and> calls (snd (main lib env ping_resp turns w)) =
               calls w @ [NewClient (RedisAddr config) (RedisPassword config) (RedisDB config),
                          Ping] @ more))"
proof (intro conjI impI)
  assume "env ''SLACK_BOT_TOKEN'' = None"
  then have "snd (loadConfig env) = Inl ''SLACK_BOT_TOKEN environment variable is required''"
    by (simp add: loadConfig_snd Getenv_def)
  from main_fatal [OF this]
  show "\<exists>ls. main lib env ping_resp turns w =
         (Some (''SLACK_BOT_TOKEN environment variable is required'', []),
          w\<lparr>logs := logs w @ ls\<rparr>)"
    by blast
next
  assume "\<exists>fatal. snd (loadConfig env) = Inl fatal"
  then show "Getenv env ''SLACK_BOT_TOKEN'' = []"
    by (auto simp: loadConfig_snd split: if_splits)
next
  assume "Getenv env ''SLACK_BOT_TOKEN'' \<noteq> []"
  then obtain config where c: "snd (loadConfig env) = Inr config"
    by (simp add: loadConfig_snd)
  from main_started [OF c] c
  show "\<exists>config more. snd (loadConfig env) = Inr config
           \<and> calls (snd (main lib env ping_resp turns w)) =
               calls w @ [NewClient (RedisAddr config) (RedisPassword config) (RedisDB config),
                          Ping] @ more"
    by blast
qed


theorem missing_token_fatal_witness:
  "(Map.empty :: environ) ''SLACK_BOT_TOKEN'' = None
   \<and> fst (main sampleLib Map.empty None [Received ''reaction heart_eyes_cat'' sampleExt] emptyWorld)
       = Some (''SLACK_BOT_TOKEN environment variable is required'', [])
   \<and> calls (snd (main sampleLib Map.empty None [Received ''reaction heart_eyes_cat'' sampleExt]
                   emptyWorld)) = []
   \<and> Getenv [''SLACK_BOT_TOKEN'' \<mapsto> ''xoxb-test''] ''SLACK_BOT_TOKEN'' \<noteq> []
   \<and> (\<exists>more. calls (snd (main sampleLib [''SLACK_BOT_TOKEN'' \<mapsto> ''xoxb-test''] None
                   [Received ''reaction heart_eyes_cat'' sampleExt] emptyWorld)) =
         NewClient ''localhost:6379'' [] 0 # Ping # more)"
proof -
  note T = missing_token_fatal [of _ sampleLib None
      "[Received ''reaction heart_eyes_cat'' sampleExt]" emptyWorld]
  have a: "(Map.empty :: environ) ''SLACK_BOT_TOKEN'' = None" by simp
  have b: "Getenv [''SLACK_BOT_TOKEN'' \<mapsto> ''xoxb-test''] ''SLACK_BOT_TOKEN'' \<noteq> []"
    by (simp add: Getenv_def)
  from T [of Map.empty] a obtain ls where
    m: "main sampleLib Map.empty None [Received ''reaction heart_eyes_cat'' sampleExt] emptyWorld =
         (Some (''SLACK_BOT_TOKEN environment variable is required'', []),
          emptyWorld\<lparr>logs := logs emptyWorld @ ls\<rparr>)"
    by blast
  from T [of "[''SLACK_BOT_TOKEN'' \<mapsto> ''xoxb-test'']"] b
  have "\<exists>more. calls (snd (main sampleLib [''SLACK_BOT_TOKEN'' \<mapsto> ''xoxb-test''] None
                   [Received ''reaction heart_eyes_cat'' sampleExt] emptyWorld)) =
         NewClient ''localhost:6379'' [] 0 # Ping # more"
    by (auto simp: sample_loadConfig(1) sample_world sampleConfig_def)
  with a b m show ?thesis by (simp add: sample_world)
qed

text \<open>
  C8, as amended. The Redis database index is not read from the environment: every
  configuration \<open>loadConfig\<close> returns has \<open>RedisDB = 0\<close>, and \<open>main\<close> creates the
  Redis client with database index 0.
\<close>

theorem redis_db_fixed:
  assumes "snd (loadConfig env) = Inr config"
  shows "RedisDB config = 0
       \<and> (\<exists>more. calls (snd (main lib env ping_resp turns w)) =
            calls w @ [NewClient (RedisAddr config) (RedisPassword config) 0, Ping] @ more)"
  using loadConfig_RedisDB [OF assms] main_started [OF assms, of lib ping_resp turns w]
  by simp

theorem redis_db_fixed_witness:
  "snd (loadConfig [''SLACK_BOT_TOKEN'' \<mapsto> ''xoxb-test'']) = Inr sampleConfig
   \<and> RedisDB sampleConfig = 0
   \<and> (\<exists>more. calls (snd (main sampleLib [''SLACK_BOT_TOKEN'' \<mapsto> ''xoxb-test''] None []
                   emptyWorld)) = NewClient ''localhost:6379'' [] 0 # Ping # more)"
  using redis_db_fixed [OF sample_loadConfig(1), of sampleLib None "[]" emptyWorld]
    sample_loadConfig(1)
  by (simp add: sample_world sampleConfig_def)

text \<open>
  C8 as stated fails: with \<open>REDIS_DB\<close> set to 5 the configuration is the default one, with
  database index 0, and no environment at all yields another index.
\<close>

theorem redis_db_override_counterexample:
  "snd (loadConfig [''SLACK_BOT_TOKEN'' \<mapsto> ''xoxb-test'', ''REDIS_DB'' \<mapsto> ''5''])
     = Inr sampleConfig
   \<and> RedisDB sampleConfig = 0
   \<and> \<not> (\<exists>env config. snd (loadConfig env) = Inr config \<and> RedisDB config \<noteq> 0)"
  using sample_loadConfig(2) loadConfig_RedisDB
  by (auto simp: sampleConfig_def)

text \<open>
  C10. A key set to the empty string reads like a key that is not set: \<open>getEnv\<close> returns
  the default for either, \<open>loadConfig\<close> returns the same result and logs the same lines
  for either, and with \<open>SLACK_BOT_TOKEN\<close> set to the empty string \<open>loadConfig\<close> is fatal
  and \<open>main\<close> exits before it touches Redis.
\<close>

theorem empty_value_is_unset:
  "getEnv (env(key \<mapsto> [])) key defaultValue = defaultValue
   \<and> getEnv (env(key := None)) key defaultValue = defaultValue
   \<and> loadConfig (env(key \<mapsto> [])) = loadConfig (env(key := None))
   \<and> snd (loadConfig (env(''SLACK_BOT_TOKEN'' \<mapsto> []))) =
       Inl ''SLACK_BOT_TOKEN environment variable is required''
   \<and> (\<exists>ls. main lib (env(''SLACK_BOT_TOKEN'' \<mapsto> [])) ping_resp turns w =
         (Some (''SLACK_BOT_TOKEN environment variable is required'', []),
          w\<lparr>logs := logs w @ ls\<rparr>))"
proof -
  have a: "getEnv (env(key \<mapsto> [])) key defaultValue = defaultValue"
    by (simp add: getEnv_def Getenv_def)
  have b: "getEnv (env(key := None)) key defaultValue = defaultValue"
    by (simp add: getEnv_def Getenv_def)
  have c: "loadConfig (env(key \<mapsto> [])) = loadConfig (env(key := None))"
    by (rule loadConfig_cong) (rule Getenv_empty_unset)
  have d: "snd (loadConfig (env(''SLACK_BOT_TOKEN'' \<mapsto> []))) =
       Inl ''SLACK_BOT_TOKEN environment variable is required''"
    by (simp add: loadConfig_snd Getenv_def)
  from main_fatal [OF d]
  have e: "\<exists>ls. main lib (env(''SLACK_BOT_TOKEN'' \<mapsto> [])) ping_resp turns w =
         (Some (''SLACK_BOT_TOKEN environment variable is required'', []),
          w\<lparr>logs := logs w @ ls\<rparr>)"
    by blast
  from a b c d e show ?thesis by blast
qed


end
